theory Spec2Isabelle
  imports Main
begin

section \<open>Values of the program\<close>

text \<open>
  The script \<^verbatim>\<open>verify_token.py\<close> posts one JSON-RPC request per (address, network)
  pair and reads the answer with \<^verbatim>\<open>response.json()\<close>. The value it then inspects is
  whatever Python's JSON parser built: \<^verbatim>\<open>None\<close>, a bool, an int, a float, a str, a list
  or a dict. A dict is kept as an association list read with \<open>map_of\<close>, each key once (of
  a key repeated in the body the parser keeps the last value). A str is the list
  of the bytes of its UTF-8 encoding. The parser keeps a lone surrogate (\<^verbatim>\<open>"\ud800"\<close> in a
  body), which has no UTF-8 encoding: it is written here as the three bytes that the
  \<^verbatim>\<open>surrogatepass\<close> handler gives it, \<open>ED\<close>, then a byte from \<open>A0\<close> to \<open>BF\<close>, then one more.
\<close>

datatype pyfloat = Finite int int | Infinity | NaN

text \<open>\<open>Finite m e\<close> stands for the float \<open>m * 2 ^ e\<close>; only whether it is zero matters below.\<close>

datatype json =
    JNull
  | JBool bool
  | JInt int
  | JFloat pyfloat
  | JString string
  | JArray "json list"
  | JObject "(string \<times> json) list"

datatype py_error =
    RequestException
  | JSONDecodeError
  | KeyError string
  | TypeError
  | UnicodeEncodeError

text \<open>
  \<open>RequestException\<close>: \<^verbatim>\<open>requests.post\<close> could not complete the call.
  \<open>JSONDecodeError\<close>: \<^verbatim>\<open>response.json()\<close> was given a body that is not JSON.
  \<open>KeyError k\<close>: \<^verbatim>\<open>d[k]\<close> on a dict without the key \<open>k\<close>.
  \<open>TypeError\<close>: \<^verbatim>\<open>x[k]\<close> or \<^verbatim>\<open>k in x\<close> on a value that does not support it.
  \<open>UnicodeEncodeError\<close>: \<^verbatim>\<open>print\<close> was given a str that the console cannot encode.
\<close>

subsection \<open>The Python operators the script applies to parsed values\<close>

fun starts_with :: "string \<Rightarrow> string \<Rightarrow> bool" where
  "starts_with [] s = True"
| "starts_with (c # cs) [] = False"
| "starts_with (c # cs) (d # ds) = (c = d \<and> starts_with cs ds)"

fun str_contains :: "string \<Rightarrow> string \<Rightarrow> bool" where
  "str_contains k [] = (k = [])"
| "str_contains k (c # cs) = (starts_with k (c # cs) \<or> str_contains k cs)"

text \<open>
  \<^verbatim>\<open>k in x\<close> for a str \<open>k\<close>: a key test on a dict, a membership test on a list (a str is
  equal only to an equal str), a substring test on a str, and a \<^verbatim>\<open>TypeError\<close> on
  \<^verbatim>\<open>None\<close>, bools and numbers, which are not iterable.
\<close>

fun py_in :: "string \<Rightarrow> json \<Rightarrow> py_error + bool" where
  "py_in k (JObject kvs) = Inr (map_of kvs k \<noteq> None)"
| "py_in k (JArray xs) = Inr (JString k \<in> set xs)"
| "py_in k (JString s) = Inr (str_contains k s)"
| "py_in k JNull = Inl TypeError"
| "py_in k (JBool b) = Inl TypeError"
| "py_in k (JInt i) = Inl TypeError"
| "py_in k (JFloat f) = Inl TypeError"

text \<open>
  \<^verbatim>\<open>x[k]\<close> for a str \<open>k\<close>: the stored value or \<^verbatim>\<open>KeyError\<close> on a dict, and a
  \<^verbatim>\<open>TypeError\<close> on everything else (lists and strs take integer indices only, the
  other values are not subscriptable).
\<close>

fun subscript :: "json \<Rightarrow> string \<Rightarrow> py_error + json" where
  "subscript (JObject kvs) k = (case map_of kvs k of None \<Rightarrow> Inl (KeyError k) | Some v \<Rightarrow> Inr v)"
| "subscript (JArray xs) k = Inl TypeError"
| "subscript (JString s) k = Inl TypeError"
| "subscript JNull k = Inl TypeError"
| "subscript (JBool b) k = Inl TypeError"
| "subscript (JInt i) k = Inl TypeError"
| "subscript (JFloat f) k = Inl TypeError"

text \<open>The truth value Python gives a parsed value in \<^verbatim>\<open>if x\<close> and \<^verbatim>\<open>x and y\<close>.\<close>

fun truthy :: "json \<Rightarrow> bool" where
  "truthy JNull = False"
| "truthy (JBool b) = b"
| "truthy (JInt i) = (i \<noteq> 0)"
| "truthy (JFloat (Finite m e)) = (m \<noteq> 0)"
| "truthy (JFloat Infinity) = True"
| "truthy (JFloat NaN) = True"
| "truthy (JString s) = (s \<noteq> [])"
| "truthy (JArray xs) = (xs \<noteq> [])"
| "truthy (JObject kvs) = (kvs \<noteq> [])"

section \<open>The network and the program state\<close>

text \<open>
  What one \<^verbatim>\<open>requests.post(url, json=payload)\<close> followed by \<^verbatim>\<open>response.json()\<close> can give:
  the call fails, or a response arrives whose body is not JSON (\<open>Response None\<close>) or
  parses to a value. The HTTP status is never read by the script.
\<close>

datatype http_outcome = Transport_failure | Response "json option"

text \<open>
  A request is the URL and the JSON payload. The network is any function from the number
  of requests made before, the URL and the payload to an outcome, so two requests with
  the same URL and payload may be answered differently.
\<close>

type_synonym request = "string \<times> json"
type_synonym network = "nat \<Rightarrow> string \<Rightarrow> json \<Rightarrow> http_outcome"

text \<open>
  One printed line: a text, or the line \<^verbatim>\<open>f"   Owner: {owner}"\<close>, kept with the parsed
  value \<open>owner\<close> that Python formats there.
\<close>

datatype line = Text string | Owner json

record state =
  sent :: "request list"
  stdout :: "line list"

text \<open>
  \<open>has_surrogate t\<close>: the str \<open>t\<close> holds a lone surrogate. In UTF-8 the byte \<open>ED\<close> is followed
  by a byte from \<open>80\<close> to \<open>9F\<close>, so \<open>ED\<close> before a byte from \<open>A0\<close> to \<open>BF\<close> marks one.
\<close>

fun has_surrogate :: "string \<Rightarrow> bool" where
  "has_surrogate (c # d # cs) =
     (c = CHR 0xED \<and> (160 :: nat) \<le> of_char d \<and> of_char d \<le> (191 :: nat) \<or>
      has_surrogate (d # cs))"
| "has_surrogate [c] = False"
| "has_surrogate [] = False"

text \<open>
  Whether \<^verbatim>\<open>print\<close> can write a line to the console, which encodes in UTF-8 and refuses
  a lone surrogate. A \<open>Text\<close> is a text of the script itself (a literal of the source, with a
  label and an address of its table in the header line) and is always written. In the
  owner line the value comes from the network: when it is a str, \<^verbatim>\<open>f"{owner}"\<close> is that str,
  surrogates included; of any other value Python formats the \<^verbatim>\<open>repr\<close>, which escapes them.
  Formatting a value is taken to succeed: a list or dict nested deeper than the recursion
  limit of the interpreter allows is not considered.
\<close>

fun can_encode :: "line \<Rightarrow> bool" where
  "can_encode (Text t) = True"
| "can_encode (Owner (JString t)) = (\<not> has_surrogate t)"
| "can_encode (Owner v) = True"

text \<open>
  \<^verbatim>\<open>print\<close>: the line is written, or \<^verbatim>\<open>UnicodeEncodeError\<close> is raised and nothing of the line
  is written. The result of a statement is the exception that ends the program, if any, and
  the state; \<open>and_then\<close> runs the statements that follow unless an exception was raised.
\<close>

definition print :: "line \<Rightarrow> state \<Rightarrow> py_error option \<times> state" where
  "print l s =
     (if can_encode l then (None, s\<lparr>stdout := stdout s @ [l]\<rparr>)
      else (Some UnicodeEncodeError, s))"

definition and_then ::
  "py_error option \<times> state \<Rightarrow> (state \<Rightarrow> py_error option \<times> state) \<Rightarrow> py_error option \<times> state" where
  "and_then r f = (case r of (None, s) \<Rightarrow> f s | (Some e, s) \<Rightarrow> (Some e, s))"

section \<open>check_account\<close>

definition url_of :: "string \<Rightarrow> string" where
  "url_of net =
     (if net = ''devnet'' then ''https://api.'' @ net @ ''.solana.com''
      else ''https://api.mainnet-beta.solana.com'')"

definition payload :: "string \<Rightarrow> json" where
  "payload address =
     JObject
       [(''jsonrpc'', JString ''2.0''),
        (''id'', JInt 1),
        (''method'', JString ''getAccountInfo''),
        (''params'', JArray [JString address, JObject [(''encoding'', JString ''base64'')]])]"

text \<open>Lines 25 to 28 of the source: what \<open>check_account\<close> makes of the parsed body.\<close>

definition read_body :: "json \<Rightarrow> py_error + bool \<times> json" where
  "read_body data =
     (case py_in ''error'' data of
        Inl e \<Rightarrow> Inl e
      | Inr True \<Rightarrow>
          (case subscript data ''error'' of
             Inl e \<Rightarrow> Inl e
           | Inr err \<Rightarrow> Inr (False, err))
      | Inr False \<Rightarrow>
          (case subscript data ''result'' of
             Inl e \<Rightarrow> Inl e
           | Inr res \<Rightarrow>
               (case subscript res ''value'' of
                  Inl e \<Rightarrow> Inl e
                | Inr v \<Rightarrow> Inr (v \<noteq> JNull, res))))"

text \<open>
  \<open>check_account\<close> takes the requests made so far and returns them with its own request
  added, also when it raises: the request has been made by then.
\<close>

definition check_account ::
  "network \<Rightarrow> request list \<Rightarrow> string \<Rightarrow> string \<Rightarrow> (py_error + bool \<times> json) \<times> request list" where
  "check_account world log address net =
     (let url = url_of net;
          body = payload address;
          log' = log @ [(url, body)]
      in case world (length log) url body of
           Transport_failure \<Rightarrow> (Inl RequestException, log')
         | Response None \<Rightarrow> (Inl JSONDecodeError, log')
         | Response (Some data) \<Rightarrow> (read_body data, log'))"

section \<open>main\<close>

definition magnifier :: string where
  "magnifier = [CHR 0xF0, CHR 0x9F, CHR 0x94, CHR 0x8D]"

definition bar_chart :: string where
  "bar_chart = [CHR 0xF0, CHR 0x9F, CHR 0x93, CHR 0x8A]"

definition check_mark :: string where
  "check_mark = [CHR 0xE2, CHR 0x9C, CHR 0x85]"

definition cross_mark :: string where
  "cross_mark = [CHR 0xE2, CHR 0x9D, CHR 0x8C]"

definition warning_sign :: string where
  "warning_sign = [CHR 0xE2, CHR 0x9A, CHR 0xA0, CHR 0xEF, CHR 0xB8, CHR 0x8F]"

text \<open>
  The table of line 32, in the order of the source. The entry \<^verbatim>\<open>RAY\<close> has the address of
  the first entry; the source marks it with the comment \<^verbatim>\<open>Esto parece estar mal\<close>.
\<close>

definition tokens :: "(string \<times> string) list" where
  "tokens =
     [(''USDC (current)'', ''4k3Dyjzvzp8eMZWUXbBCjEvwSkkk59S5iCNLY3QrkX6R''),
      (''RAY'', ''4k3Dyjzvzp8eMZWUXbBCjEvwSkkk59S5iCNLY3QrkX6R''),
      (''SOL'', ''So11111111111111111111111111111111111111112''),
      (''DevNet USDC (known)'', ''Gh9ZwEmdLJ8DscKNTkTqPbNwLNNBjuSzaG9Vp2KGtKJr''),
      (''DevNet USDC (alt)'', ''4zMMC9srt5Ri5X14GAgXhaHii3GnPAEERYPJgZJDncDU'')]"

definition title_line :: line where
  "title_line = Text (magnifier @ '' VERIFICACI'' @ [CHR 0xC3, CHR 0x93] @ ''N DE TOKENS EN DEVNET'')"

definition rule_line :: line where
  "rule_line = Text (replicate 50 CHR ''='')"

definition header_line :: "string \<Rightarrow> string \<Rightarrow> line" where
  "header_line name address = Text ([CHR 0x0A] @ bar_chart @ '' '' @ name @ '': '' @ address)"

definition devnet_line :: "bool \<Rightarrow> line" where
  "devnet_line exists_devnet =
     Text (''   DevNet: '' @
       (if exists_devnet then check_mark @ '' EXISTS'' else cross_mark @ '' NOT FOUND''))"

definition mainnet_line :: "bool \<Rightarrow> line" where
  "mainnet_line exists_mainnet =
     Text (''   Mainnet: '' @
       (if exists_mainnet then check_mark @ '' EXISTS'' else cross_mark @ '' NOT FOUND''))"

definition spl_line :: line where
  "spl_line = Text (''   '' @ check_mark @ '' Owned by SPL Token Program'')"

definition different_line :: line where
  "different_line = Text (''   '' @ warning_sign @ ''  Different owner'')"

definition token_program :: string where
  "token_program = ''TokenkegQfeZyiNwAJbNbGKPFXCWuBvf9Ss623VQ5DA''"

text \<open>
  Lines 54 to 63 of the source: the owner report of one entry, from the flag and the
  payload of the DevNet check. The result is the exception that ends the program, if any,
  and the state. \<^verbatim>\<open>result_devnet["value"]\<close> is read on line 54 for its truth value and again
  on line 56, and line 57 tests the truth value of \<^verbatim>\<open>account_data\<close> once more. The \<^verbatim>\<open>print\<close>
  of line 59 is the one that is given a value from the network.
\<close>

definition report_owner :: "bool \<Rightarrow> json \<Rightarrow> state \<Rightarrow> py_error option \<times> state" where
  "report_owner exists_devnet result_devnet s =
     (if \<not> exists_devnet then (None, s)
      else case subscript result_devnet ''value'' of
             Inl e \<Rightarrow> (Some e, s)
           | Inr v \<Rightarrow>
               if \<not> truthy v then (None, s)
               else (case subscript result_devnet ''value'' of
                       Inl e \<Rightarrow> (Some e, s)
                     | Inr account_data \<Rightarrow>
                         if \<not> truthy account_data then (None, s)
                         else (case py_in ''owner'' account_data of
                                 Inl e \<Rightarrow> (Some e, s)
                               | Inr False \<Rightarrow> (None, s)
                               | Inr True \<Rightarrow>
                                   (case subscript account_data ''owner'' of
                                      Inl e \<Rightarrow> (Some e, s)
                                    | Inr owner \<Rightarrow>
                                        and_then (print (Owner owner) s)
                                          (\<lambda>s1. if owner = JString token_program
                                                then print spl_line s1
                                                else print different_line s1)))))"

text \<open>Lines 44 to 63: the body of the loop, for one entry of the table.\<close>

definition process_entry :: "network \<Rightarrow> state \<Rightarrow> string \<times> string \<Rightarrow> py_error option \<times> state" where
  "process_entry world s entry =
     (let name = fst entry;
          address = snd entry
      in and_then (print (header_line name address) s)
           (\<lambda>s1. case check_account world (sent s1) address ''devnet'' of
                   (Inl e, log1) \<Rightarrow> (Some e, s1\<lparr>sent := log1\<rparr>)
                 | (Inr (exists_devnet, result_devnet), log1) \<Rightarrow>
                     and_then (print (devnet_line exists_devnet) (s1\<lparr>sent := log1\<rparr>))
                       (\<lambda>s2. case check_account world (sent s2) address ''mainnet-beta'' of
                               (Inl e, log2) \<Rightarrow> (Some e, s2\<lparr>sent := log2\<rparr>)
                             | (Inr (exists_mainnet, result_mainnet), log2) \<Rightarrow>
                                 and_then
                                   (print (mainnet_line exists_mainnet) (s2\<lparr>sent := log2\<rparr>))
                                   (report_owner exists_devnet result_devnet))))"

text \<open>The \<^verbatim>\<open>for\<close> loop: an exception in one entry ends it.\<close>

fun run_entries :: "network \<Rightarrow> state \<Rightarrow> (string \<times> string) list \<Rightarrow> py_error option \<times> state" where
  "run_entries world s [] = (None, s)"
| "run_entries world s (entry # rest) =
     (case process_entry world s entry of
        (Some e, s') \<Rightarrow> (Some e, s')
      | (None, s') \<Rightarrow> run_entries world s' rest)"

definition initial :: state where
  "initial = \<lparr>sent = [], stdout = []\<rparr>"

definition main :: "network \<Rightarrow> py_error option \<times> state" where
  "main world =
     and_then (print title_line initial)
       (\<lambda>s1. and_then (print rule_line s1) (\<lambda>s2. run_entries world s2 tokens))"

text \<open>
  The exit status of the interpreter: 0 when \<open>main\<close> returns, 1 when an exception leaves
  it uncaught.
\<close>

definition exit_code :: "py_error option \<Rightarrow> int" where
  "exit_code status = (case status of None \<Rightarrow> 0 | Some e \<Rightarrow> 1)"

section \<open>Reading a reply, for the statements below\<close>

text \<open>
  \<open>field_of x k\<close> is the member \<open>k\<close> of the JSON object \<open>x\<close>, and nothing when \<open>x\<close> has
  no such member or is not an object. The statements use it to say what a reply holds:
  "the body has an \<^verbatim>\<open>error\<close> key" is \<open>field_of data ''error'' \<noteq> None\<close>, and
  \<^verbatim>\<open>result.value\<close> is \<open>field_of res ''value''\<close> for \<open>field_of data ''result'' = Some res\<close>.
\<close>

fun field_of :: "json \<Rightarrow> string \<Rightarrow> json option" where
  "field_of (JObject kvs) k = map_of kvs k"
| "field_of (JArray xs) k = None"
| "field_of (JString s) k = None"
| "field_of JNull k = None"
| "field_of (JBool b) k = None"
| "field_of (JInt i) k = None"
| "field_of (JFloat f) k = None"

text \<open>
  A malformed reply: the body is not JSON, or it parses to a value that has neither an
  \<^verbatim>\<open>error\<close> key nor a \<^verbatim>\<open>result\<close> object with a \<^verbatim>\<open>value\<close> member.
\<close>

definition malformed :: "http_outcome \<Rightarrow> bool" where
  "malformed r =
     (case r of
        Transport_failure \<Rightarrow> False
      | Response None \<Rightarrow> True
      | Response (Some data) \<Rightarrow>
          field_of data ''error'' = None \<and>
          (case field_of data ''result'' of
             None \<Rightarrow> True
           | Some res \<Rightarrow> field_of res ''value'' = None))"

text \<open>
  A reply of the expected shape: the call completed and the body parsed to an object that
  has an \<^verbatim>\<open>error\<close> key, or else a \<^verbatim>\<open>result\<close> object whose \<^verbatim>\<open>value\<close> is null or an
  object, the account. The owner of the account is an address: its \<^verbatim>\<open>owner\<close> member, when
  it has one, is a str, and one the console can encode.
\<close>

definition expected_shape :: "http_outcome \<Rightarrow> bool" where
  "expected_shape r =
     (case r of
        Transport_failure \<Rightarrow> False
      | Response None \<Rightarrow> False
      | Response (Some data) \<Rightarrow>
          field_of data ''error'' \<noteq> None \<or>
          (case field_of data ''result'' of
             None \<Rightarrow> False
           | Some res \<Rightarrow>
               (case field_of res ''value'' of
                  Some JNull \<Rightarrow> True
                | Some (JObject account) \<Rightarrow>
                    (case map_of account ''owner'' of
                       None \<Rightarrow> True
                     | Some (JString t) \<Rightarrow> \<not> has_surrogate t
                     | Some other \<Rightarrow> False)
                | _ \<Rightarrow> False)))"

text \<open>The two requests the loop body makes for one entry of the table, in order.\<close>

definition requests_of :: "string \<times> string \<Rightarrow> request list" where
  "requests_of entry =
     [(url_of ''devnet'', payload (snd entry)), (url_of ''mainnet-beta'', payload (snd entry))]"

subsection \<open>Sample replies of \<^verbatim>\<open>getAccountInfo\<close> and sample networks\<close>

definition account_info :: "json \<Rightarrow> json" where
  "account_info owner =
     JObject
       [(''data'', JArray [JString ''AQAAAA=='', JString ''base64'']),
        (''executable'', JBool False),
        (''lamports'', JInt 1461600),
        (''owner'', owner),
        (''rentEpoch'', JInt 361)]"

definition rpc_result :: "json \<Rightarrow> json" where
  "rpc_result v = JObject [(''context'', JObject [(''slot'', JInt 341197053)]), (''value'', v)]"

definition rpc_reply :: "json \<Rightarrow> json" where
  "rpc_reply v = JObject [(''jsonrpc'', JString ''2.0''), (''result'', rpc_result v), (''id'', JInt 1)]"

definition error_reply :: json where
  "error_reply =
     JObject
       [(''jsonrpc'', JString ''2.0''),
        (''error'',
           JObject
             [(''code'', JInt (- 32602)),
              (''message'', JString ''Invalid param: Invalid'')]),
        (''id'', JInt 1)]"

text \<open>
  \<open>always data\<close> answers every request with \<open>data\<close>; \<open>by_url d m\<close> answers the DevNet URL
  with \<open>d\<close> and any other URL with \<open>m\<close>; \<open>garbled_at k data\<close> answers with \<open>data\<close> except for
  request number \<open>k\<close>, whose body is not JSON.
\<close>

definition always :: "json \<Rightarrow> network" where
  "always data = (\<lambda>n url body. Response (Some data))"

definition by_url :: "http_outcome \<Rightarrow> http_outcome \<Rightarrow> network" where
  "by_url d m = (\<lambda>n url body. if url = ''https://api.devnet.solana.com'' then d else m)"

definition garbled_at :: "nat \<Rightarrow> json \<Rightarrow> network" where
  "garbled_at k data = (\<lambda>n url body. if n = k then Response None else Response (Some data))"

definition sol :: string where
  "sol = ''So11111111111111111111111111111111111111112''"

text \<open>The str \<^verbatim>\<open>"\ud800"\<close>, one lone surrogate.\<close>

definition lone_surrogate :: string where
  "lone_surrogate = [CHR 0xED, CHR 0xA0, CHR 0x80]"

definition four_k :: string where
  "four_k = ''4k3Dyjzvzp8eMZWUXbBCjEvwSkkk59S5iCNLY3QrkX6R''"

section \<open>What check_account returns\<close>

lemma subscript_Inr: "subscript x k = Inr v \<longleftrightarrow> field_of x k = Some v"
  by (cases x) (auto split: option.splits)

lemma subscript_Inl: "subscript x k = Inl e \<Longrightarrow> field_of x k = None"
  by (cases x) (auto split: option.splits)

lemma read_body_Inr:
  "read_body data = Inr (b, r) \<longleftrightarrow>
     (field_of data ''error'' = Some r \<and> \<not> b) \<or>
     (field_of data ''error'' = None \<and> field_of data ''result'' = Some r \<and>
      (\<exists>v. field_of r ''value'' = Some v \<and> b = (v \<noteq> JNull)))"
proof (cases data)
  case (JObject kvs)
  show ?thesis
  proof (cases "map_of kvs ''error''")
    case None
    with JObject show ?thesis
      by (cases "map_of kvs ''result''")
        (auto simp: read_body_def subscript_Inr split: sum.splits dest: subscript_Inl)
  next
    case (Some e)
    with JObject show ?thesis
      by (auto simp: read_body_def)
  qed
qed (auto simp: read_body_def split: sum.splits bool.splits)

lemma read_body_Inl:
  "(\<exists>e. read_body data = Inl e) \<longleftrightarrow>
     field_of data ''error'' = None \<and>
     (case field_of data ''result'' of None \<Rightarrow> True | Some res \<Rightarrow> field_of res ''value'' = None)"
proof -
  have raises: "(\<exists>e. read_body data = Inl e) \<longleftrightarrow> \<not> (\<exists>b r. read_body data = Inr (b, r))"
    by (cases "read_body data") auto
  show ?thesis
  proof (cases "field_of data ''error''")
    case (Some err)
    then show ?thesis by (auto simp: raises read_body_Inr)
  next
    case None
    show ?thesis
    proof (cases "field_of data ''result''")
      case no_result: None
      with None show ?thesis by (auto simp: raises read_body_Inr)
    next
      case (Some res)
      with None show ?thesis
        by (cases "field_of res ''value''") (auto simp: raises read_body_Inr)
    qed
  qed
qed

lemma read_body_rpc_reply: "read_body (rpc_reply v) = Inr (v \<noteq> JNull, rpc_result v)"
  by (simp add: read_body_def rpc_reply_def rpc_result_def)

lemma check_account_log:
  "snd (check_account world log address net) = log @ [(url_of net, payload address)]"
  by (simp add: check_account_def Let_def split: http_outcome.splits option.splits)

text \<open>
  Line 10 sends every network name other than \<^verbatim>\<open>devnet\<close> to the Mainnet URL, \<^verbatim>\<open>testnet\<close> for
  one; \<open>main\<close> passes \<^verbatim>\<open>devnet\<close> and \<^verbatim>\<open>mainnet-beta\<close> only.
\<close>

lemma check_account_other_network:
  "net \<noteq> ''devnet'' \<Longrightarrow>
   snd (check_account world log address net) =
     log @ [(''https://api.mainnet-beta.solana.com'', payload address)]"
  by (simp add: check_account_log url_of_def)

lemma check_account_Inr:
  "fst (check_account world log address net) = Inr (b, r) \<longleftrightarrow>
     (\<exists>data. world (length log) (url_of net) (payload address) = Response (Some data) \<and>
        read_body data = Inr (b, r))"
  by (simp add: check_account_def Let_def split: http_outcome.splits option.splits)

lemma check_account_Response:
  "world (length log) (url_of net) (payload a) = Response (Some data) \<Longrightarrow>
   fst (check_account world log a net) = read_body data"
  by (simp add: check_account_def Let_def)

lemma check_account_cong:
  "world1 (length log1) (url_of net) (payload a) = world2 (length log2) (url_of net) (payload a) \<Longrightarrow>
   fst (check_account world1 log1 a net) = fst (check_account world2 log2 a net)"
  by (simp add: check_account_def Let_def split: http_outcome.splits option.splits)

lemma check_account_raises_iff:
  "(\<exists>e. fst (check_account world log a net) = Inl e) \<longleftrightarrow>
     world (length log) (url_of net) (payload a) = Transport_failure \<or>
     malformed (world (length log) (url_of net) (payload a))"
proof (cases "world (length log) (url_of net) (payload a)")
  case Transport_failure
  then show ?thesis by (simp add: check_account_def Let_def)
next
  case (Response body)
  show ?thesis
  proof (cases body)
    case None
    with Response show ?thesis by (simp add: check_account_def Let_def malformed_def)
  next
    case (Some data)
    with Response have "fst (check_account world log a net) = read_body data"
      by (simp add: check_account_Response)
    with Response Some read_body_Inl [of data] show ?thesis
      by (simp add: malformed_def)
  qed
qed

subsection \<open>On the sample networks\<close>

lemma check_account_always:
  "fst (check_account (always data) log a net) = read_body data"
  by (simp add: check_account_def always_def Let_def)

lemma check_account_by_url_devnet:
  "fst (check_account (by_url (Response (Some d)) m) log a ''devnet'') = read_body d"
  by (simp add: check_account_def by_url_def url_of_def Let_def)

lemma check_account_by_url_mainnet:
  "fst (check_account (by_url d (Response (Some m))) log a ''mainnet-beta'') = read_body m"
  by (simp add: check_account_def by_url_def url_of_def Let_def)

lemma check_account_by_url_failure:
  "fst (check_account (by_url d Transport_failure) log a ''mainnet-beta'') = Inl RequestException"
  by (simp add: check_account_def by_url_def url_of_def Let_def)

lemma check_account_garbled:
  "fst (check_account (garbled_at k data) log a net) =
     (if length log = k then Inl JSONDecodeError else read_body data)"
  by (simp add: check_account_def garbled_at_def Let_def)

section \<open>The claims about check_account\<close>

text \<open>
  C1. When the parsed body has no \<^verbatim>\<open>error\<close> key, \<open>check_account\<close> returns \<open>(True, r)\<close>
  exactly when \<open>r\<close> is the \<^verbatim>\<open>result\<close> member of the body and \<^verbatim>\<open>result.value\<close> is there and
  not null, and \<open>(False, r)\<close> exactly when \<open>r\<close> is the \<^verbatim>\<open>result\<close> member and
  \<^verbatim>\<open>result.value\<close> is null. So the flag tells Exists from NotFound and the second
  component is the whole \<^verbatim>\<open>result\<close> object in both cases.
\<close>

theorem check_account_exists_iff_value:
  assumes "world (length log) (url_of net) (payload address) = Response (Some data)"
    and "field_of data ''error'' = None"
  shows "(fst (check_account world log address net) = Inr (True, r)) =
           (field_of data ''result'' = Some r \<and>
            (\<exists>v. field_of r ''value'' = Some v \<and> v \<noteq> JNull)) \<and>
         (fst (check_account world log address net) = Inr (False, r)) =
           (field_of data ''result'' = Some r \<and> field_of r ''value'' = Some JNull)"
  using assms by (auto simp: check_account_Inr read_body_Inr)

theorem check_account_exists_iff_value_witness:
  "field_of (rpc_reply JNull) ''error'' = None \<and>
   fst (check_account (always (rpc_reply JNull)) [] sol ''devnet'') =
     Inr (False, rpc_result JNull) \<and>
   fst (check_account (always (rpc_reply (account_info (JString token_program)))) [] sol
          ''devnet'') =
     Inr (True, rpc_result (account_info (JString token_program)))"
proof -
  let ?acct = "account_info (JString token_program)"
  have n1: "always (rpc_reply JNull) (length []) (url_of ''devnet'') (payload sol) =
      Response (Some (rpc_reply JNull))"
    by (simp add: always_def)
  have n2: "field_of (rpc_reply JNull) ''error'' = None"
    by (simp add: rpc_reply_def)
  have n3: "field_of (rpc_reply JNull) ''result'' = Some (rpc_result JNull) \<and>
      field_of (rpc_result JNull) ''value'' = Some JNull"
    by (simp add: rpc_reply_def rpc_result_def)
  have f1: "always (rpc_reply ?acct) (length []) (url_of ''devnet'') (payload sol) =
      Response (Some (rpc_reply ?acct))"
    by (simp add: always_def)
  have f2: "field_of (rpc_reply ?acct) ''error'' = None"
    by (simp add: rpc_reply_def)
  have f3: "field_of (rpc_reply ?acct) ''result'' = Some (rpc_result ?acct) \<and>
      (\<exists>v. field_of (rpc_result ?acct) ''value'' = Some v \<and> v \<noteq> JNull)"
    by (simp add: rpc_reply_def rpc_result_def account_info_def)
  from check_account_exists_iff_value [of "always (rpc_reply JNull)" "[]" "''devnet''" sol
      "rpc_reply JNull" "rpc_result JNull", OF n1 n2]
    check_account_exists_iff_value [of "always (rpc_reply ?acct)" "[]" "''devnet''" sol
      "rpc_reply ?acct" "rpc_result ?acct", OF f1 f2]
    n2 n3 f3
  show ?thesis by blast
qed

text \<open>
  C2. When the parsed body has an \<^verbatim>\<open>error\<close> key, \<open>check_account\<close> returns the flag
  \<open>False\<close> with the value stored under that key, whatever else the body holds.
\<close>

theorem check_account_error_verbatim:
  assumes "world (length log) (url_of net) (payload address) = Response (Some data)"
    and "field_of data ''error'' = Some err"
  shows "check_account world log address net =
           (Inr (False, err), log @ [(url_of net, payload address)])"
proof -
  from assms(2) have "read_body data = Inr (False, err)"
    by (simp add: read_body_Inr)
  with assms(1) show ?thesis
    by (simp add: check_account_def Let_def)
qed

theorem check_account_error_verbatim_witness:
  "field_of error_reply ''error'' =
     Some (JObject [(''code'', JInt (- 32602)), (''message'', JString ''Invalid param: Invalid'')]) \<and>
   check_account (always error_reply) [] ''not-base58'' ''mainnet-beta'' =
     (Inr (False,
           JObject [(''code'', JInt (- 32602)), (''message'', JString ''Invalid param: Invalid'')]),
      [(''https://api.mainnet-beta.solana.com'', payload ''not-base58'')])"
proof -
  let ?e = "JObject [(''code'', JInt (- 32602)), (''message'', JString ''Invalid param: Invalid'')]"
  have h1: "always error_reply (length [])
      (url_of ''mainnet-beta'') (payload ''not-base58'') = Response (Some error_reply)"
    by (simp add: always_def)
  have h2: "field_of error_reply ''error'' = Some ?e"
    by (simp add: error_reply_def)
  from check_account_error_verbatim [of "always error_reply" "[]" "''mainnet-beta''"
      "''not-base58''" error_reply ?e, OF h1 h2] h2
  show ?thesis
    by (simp add: url_of_def)
qed

text \<open>
  C6. For every address, \<open>check_account\<close> posts to \<^verbatim>\<open>https://api.devnet.solana.com\<close> when
  the network is \<^verbatim>\<open>devnet\<close> and to \<^verbatim>\<open>https://api.mainnet-beta.solana.com\<close> when it is
  \<^verbatim>\<open>mainnet-beta\<close>: that is the request it adds to the log, and its result is the
  same on a network that gives the answer of that URL to every request.
\<close>

theorem check_account_url_by_network:
  "snd (check_account world log address ''devnet'') =
     log @ [(''https://api.devnet.solana.com'', payload address)] \<and>
   snd (check_account world log address ''mainnet-beta'') =
     log @ [(''https://api.mainnet-beta.solana.com'', payload address)] \<and>
   fst (check_account world log address ''devnet'') =
     fst (check_account
            (\<lambda>n url body. world (length log) ''https://api.devnet.solana.com'' (payload address))
            log address ''devnet'') \<and>
   fst (check_account world log address ''mainnet-beta'') =
     fst (check_account
            (\<lambda>n url body. world (length log) ''https://api.mainnet-beta.solana.com'' (payload address))
            log address ''mainnet-beta'')"
  by (simp add: check_account_def url_of_def Let_def split: http_outcome.splits option.splits)

theorem check_account_url_by_network_witness:
  "map fst (snd (check_account (always (rpc_reply JNull)) []
      ''Gh9ZwEmdLJ8DscKNTkTqPbNwLNNBjuSzaG9Vp2KGtKJr'' ''devnet'')) =
     [''https://api.devnet.solana.com''] \<and>
   map fst (snd (check_account (always (rpc_reply JNull)) []
      ''4zMMC9srt5Ri5X14GAgXhaHii3GnPAEERYPJgZJDncDU'' ''mainnet-beta'')) =
     [''https://api.mainnet-beta.solana.com'']"
  using check_account_url_by_network [of "always (rpc_reply JNull)" "[]"
      "''Gh9ZwEmdLJ8DscKNTkTqPbNwLNNBjuSzaG9Vp2KGtKJr''"]
    check_account_url_by_network [of "always (rpc_reply JNull)" "[]"
      "''4zMMC9srt5Ri5X14GAgXhaHii3GnPAEERYPJgZJDncDU''"]
  by simp

section \<open>What the loop body prints\<close>

lemma print_ok: "can_encode l \<Longrightarrow> print l s = (None, s\<lparr>stdout := stdout s @ [l]\<rparr>)"
  by (simp add: print_def)

lemma print_refused: "\<not> can_encode l \<Longrightarrow> print l s = (Some UnicodeEncodeError, s)"
  by (simp add: print_def)

lemma script_lines_encode:
  "can_encode title_line" "can_encode rule_line" "can_encode (header_line name a)"
  "can_encode (devnet_line b)" "can_encode (mainnet_line b)"
  "can_encode spl_line" "can_encode different_line"
  by (simp_all add: title_line_def rule_line_def header_line_def devnet_line_def
      mainnet_line_def spl_line_def different_line_def)

text \<open>
  The texts of the script hold no surrogate: the literals, and the header line of every
  entry of the table. So the console writes them, as \<open>can_encode\<close> says.
\<close>

lemma script_texts_encode:
  "title_line = Text t \<Longrightarrow> \<not> has_surrogate t"
  "rule_line = Text t \<Longrightarrow> \<not> has_surrogate t"
  "devnet_line b = Text t \<Longrightarrow> \<not> has_surrogate t"
  "mainnet_line b = Text t \<Longrightarrow> \<not> has_surrogate t"
  "spl_line = Text t \<Longrightarrow> \<not> has_surrogate t"
  "different_line = Text t \<Longrightarrow> \<not> has_surrogate t"
  "(name, a) \<in> set tokens \<Longrightarrow> header_line name a = Text t \<Longrightarrow> \<not> has_surrogate t"
  by (auto simp: title_line_def rule_line_def devnet_line_def mainnet_line_def spl_line_def
      different_line_def header_line_def tokens_def magnifier_def bar_chart_def check_mark_def
      cross_mark_def warning_sign_def eval_nat_numeral split: if_splits)

lemma main_run:
  "main world = run_entries world \<lparr>sent = [], stdout = [title_line, rule_line]\<rparr> tokens"
  by (simp add: main_def and_then_def print_ok script_lines_encode initial_def)

lemma process_entry_unfold:
  "process_entry world s (name, a) =
     (case fst (check_account world (sent s) a ''devnet'') of
        Inl e \<Rightarrow>
          (Some e,
           s\<lparr>sent := sent s @ [(url_of ''devnet'', payload a)],
            stdout := stdout s @ [header_line name a]\<rparr>)
      | Inr (ed, rd) \<Rightarrow>
          (case fst (check_account world (sent s @ [(url_of ''devnet'', payload a)]) a
                  ''mainnet-beta'') of
             Inl e \<Rightarrow>
               (Some e,
                s\<lparr>sent := sent s @ [(url_of ''devnet'', payload a),
                                  (url_of ''mainnet-beta'', payload a)],
                 stdout := stdout s @ [header_line name a, devnet_line ed]\<rparr>)
           | Inr (em, rm) \<Rightarrow>
               report_owner ed rd
                 (s\<lparr>sent := sent s @ [(url_of ''devnet'', payload a),
                                    (url_of ''mainnet-beta'', payload a)],
                   stdout := stdout s @ [header_line name a, devnet_line ed, mainnet_line em]\<rparr>)))"
proof -
  obtain r1 l1 where c1: "check_account world (sent s) a ''devnet'' = (r1, l1)"
    by (cases "check_account world (sent s) a ''devnet''")
  with check_account_log [of world "sent s" a "''devnet''"]
  have l1: "l1 = sent s @ [(url_of ''devnet'', payload a)]" by simp
  obtain r2 l2 where c2: "check_account world l1 a ''mainnet-beta'' = (r2, l2)"
    by (cases "check_account world l1 a ''mainnet-beta''")
  with check_account_log [of world l1 a "''mainnet-beta''"]
  have l2: "l2 = l1 @ [(url_of ''mainnet-beta'', payload a)]" by simp
  show ?thesis
    using c1 c2 l1 l2
    by (simp add: process_entry_def and_then_def print_ok script_lines_encode Let_def
        split: sum.splits prod.splits)
qed

lemma report_owner_prints_owner:
  assumes "field_of rd ''value'' = Some acct" and "field_of acct ''owner'' = Some ow"
    and "can_encode (Owner ow)"
  shows "report_owner True rd s =
           (None, s\<lparr>stdout := stdout s @
              [Owner ow, if ow = JString token_program then spl_line else different_line]\<rparr>)"
proof -
  from assms(2) obtain kvs where acct: "acct = JObject kvs" and ow: "map_of kvs ''owner'' = Some ow"
    by (cases acct) auto
  from ow have "kvs \<noteq> []" by auto
  with acct ow assms(1,3) show ?thesis
    by (simp add: report_owner_def subscript_Inr [THEN iffD2] and_then_def print_ok
        script_lines_encode)
qed

lemma report_owner_refused:
  assumes "field_of rd ''value'' = Some acct" and "field_of acct ''owner'' = Some ow"
    and "\<not> can_encode (Owner ow)"
  shows "report_owner True rd s = (Some UnicodeEncodeError, s)"
proof -
  from assms(2) obtain kvs where acct: "acct = JObject kvs" and ow: "map_of kvs ''owner'' = Some ow"
    by (cases acct) auto
  from ow have "kvs \<noteq> []" by auto
  with acct ow assms(1,3) show ?thesis
    by (simp add: report_owner_def subscript_Inr [THEN iffD2] and_then_def print_refused)
qed

lemma token_program_encodes: "can_encode (Owner (JString token_program))"
  by (simp add: token_program_def)

lemma report_owner_silent:
  assumes "\<not> (ed \<and> (\<exists>acct ow. field_of rd ''value'' = Some acct \<and> field_of acct ''owner'' = Some ow))"
  shows "snd (report_owner ed rd s) = s"
proof (cases ed)
  case False
  then show ?thesis by (simp add: report_owner_def)
next
  case True
  show ?thesis
  proof (cases "subscript rd ''value''")
    case (Inl e)
    with True show ?thesis by (simp add: report_owner_def)
  next
    case (Inr v)
    then have v: "field_of rd ''value'' = Some v" by (simp add: subscript_Inr)
    with True assms have no: "field_of v ''owner'' = None" by (cases "field_of v ''owner''") auto
    show ?thesis
    proof (cases "subscript v ''owner''")
      case (Inl e)
      with True Inr show ?thesis
        by (simp add: report_owner_def split: sum.splits bool.splits)
    next
      case (Inr ow)
      with no show ?thesis by (simp add: subscript_Inr)
    qed
  qed
qed

lemma report_owner_block:
  "fst (report_owner ed rd s) = fst (report_owner ed rd initial) \<and>
   sent (snd (report_owner ed rd s)) = sent s \<and>
   stdout (snd (report_owner ed rd s)) = stdout s @ stdout (snd (report_owner ed rd initial))"
  by (simp add: report_owner_def print_def and_then_def initial_def
      split: sum.splits bool.splits)

lemma report_owner_object:
  assumes "field_of rd ''value'' = Some JNull \<or>
    (\<exists>acct. field_of rd ''value'' = Some (JObject acct) \<and>
       (case map_of acct ''owner'' of
          None \<Rightarrow> True
        | Some (JString t) \<Rightarrow> \<not> has_surrogate t
        | Some other \<Rightarrow> False))"
  shows "fst (report_owner ed rd t) = None"
proof -
  from assms consider "field_of rd ''value'' = Some JNull"
    | acct where "field_of rd ''value'' = Some (JObject acct)"
      "case map_of acct ''owner'' of
          None \<Rightarrow> True
        | Some (JString t) \<Rightarrow> \<not> has_surrogate t
        | Some other \<Rightarrow> False"
    by blast
  then show ?thesis
  proof cases
    case 1
    then have "subscript rd ''value'' = Inr JNull" by (simp add: subscript_Inr)
    then show ?thesis by (simp add: report_owner_def)
  next
    case 2
    show ?thesis
    proof (cases "map_of acct ''owner''")
      case None
      with 2(1) have "\<not> (ed \<and> (\<exists>v x. field_of rd ''value'' = Some v \<and> field_of v ''owner'' = Some x))"
        by simp
      then have "snd (report_owner ed rd t) = t" by (rule report_owner_silent)
      moreover from 2(1) None have "fst (report_owner ed rd t) = None"
        by (simp add: report_owner_def subscript_Inr [THEN iffD2])
      ultimately show ?thesis by simp
    next
      case (Some ow)
      with 2(2) have enc: "can_encode (Owner ow)"
        by (cases ow) simp_all
      from Some have ow: "field_of (JObject acct) ''owner'' = Some ow" by simp
      show ?thesis
      proof (cases ed)
        case True
        with report_owner_prints_owner [OF 2(1) ow enc] show ?thesis by simp
      next
        case False
        then show ?thesis by (simp add: report_owner_def)
      qed
    qed
  qed
qed

lemma process_entry_devnet_line:
  assumes "fst (check_account world (sent s) a ''devnet'') = Inr (ed, rd)"
  shows "\<exists>rest. stdout (snd (process_entry world s (name, a))) =
           stdout s @ header_line name a # devnet_line ed # rest"
proof (cases "fst (check_account world (sent s @ [(url_of ''devnet'', payload a)]) a ''mainnet-beta'')")
  case (Inl e)
  with assms show ?thesis by (simp add: process_entry_unfold)
next
  case (Inr q)
  with assms show ?thesis
    by (cases q) (simp add: process_entry_unfold report_owner_block [where s = "_\<lparr>stdout := _\<rparr>"])
qed

lemma process_entry_mainnet_line:
  assumes "fst (check_account world (sent s) a ''devnet'') = Inr (ed, rd)"
    and "fst (check_account world (sent s @ [(url_of ''devnet'', payload a)]) a ''mainnet-beta'') =
           Inr (em, rm)"
  shows "\<exists>rest. stdout (snd (process_entry world s (name, a))) =
           stdout s @ header_line name a # devnet_line ed # mainnet_line em # rest"
  using assms
  by (simp add: process_entry_unfold report_owner_block [where s = "_\<lparr>stdout := _\<rparr>"])

lemma expected_shape_returns:
  assumes "expected_shape (world (length log) (url_of net) (payload a))"
  shows "\<exists>b r. fst (check_account world log a net) = Inr (b, r) \<and>
           (\<forall>t. fst (report_owner b r t) = None)"
proof -
  from assms obtain data where w: "world (length log) (url_of net) (payload a) = Response (Some data)"
    by (auto simp: expected_shape_def split: http_outcome.splits option.splits)
  then have c: "fst (check_account world log a net) = read_body data"
    by (rule check_account_Response)
  show ?thesis
  proof (cases "field_of data ''error''")
    case (Some err)
    then have "read_body data = Inr (False, err)" by (simp add: read_body_Inr)
    moreover have "\<forall>t. fst (report_owner False err t) = None" by (simp add: report_owner_def)
    ultimately show ?thesis using c by auto
  next
    case None
    with assms w obtain res where res: "field_of data ''result'' = Some res"
      and v: "field_of res ''value'' = Some JNull \<or>
        (\<exists>acct. field_of res ''value'' = Some (JObject acct) \<and>
           (case map_of acct ''owner'' of
              None \<Rightarrow> True
            | Some (JString t) \<Rightarrow> \<not> has_surrogate t
            | Some other \<Rightarrow> False))"
      by (auto simp: expected_shape_def split: option.splits json.splits)
    then obtain v where "field_of res ''value'' = Some v" by blast
    with None res have "read_body data = Inr (v \<noteq> JNull, res)" by (simp add: read_body_Inr)
    with c v show ?thesis by (simp add: report_owner_object)
  qed
qed

lemma process_entry_expected:
  assumes "expected_shape (world (length (sent s)) (url_of ''devnet'') (payload a))"
    and "expected_shape (world (Suc (length (sent s))) (url_of ''mainnet-beta'') (payload a))"
  shows "fst (process_entry world s (name, a)) = None \<and>
         sent (snd (process_entry world s (name, a))) = sent s @ requests_of (name, a) \<and>
         (\<exists>ed em owner_lines.
            stdout (snd (process_entry world s (name, a))) =
              stdout s @ header_line name a # devnet_line ed # mainnet_line em # owner_lines)"
proof -
  from expected_shape_returns [where world = world and log = "sent s", OF assms(1)] obtain ed rd
    where d: "fst (check_account world (sent s) a ''devnet'') = Inr (ed, rd)"
      and ok: "\<And>t. fst (report_owner ed rd t) = None"
    by blast
  from assms(2) have "expected_shape (world (length (sent s @ [(url_of ''devnet'', payload a)]))
      (url_of ''mainnet-beta'') (payload a))" by simp
  from expected_shape_returns
    [where world = world and log = "sent s @ [(url_of ''devnet'', payload a)]", OF this]
  obtain em rm
    where m: "fst (check_account world (sent s @ [(url_of ''devnet'', payload a)]) a
                ''mainnet-beta'') = Inr (em, rm)"
    by blast
  from d m ok have "fst (process_entry world s (name, a)) = None"
    by (simp add: process_entry_unfold)
  moreover from d m have "sent (snd (process_entry world s (name, a))) = sent s @ requests_of (name, a)"
    by (simp add: process_entry_unfold requests_of_def report_owner_block [where s = "_\<lparr>stdout := _\<rparr>"])
  moreover from process_entry_mainnet_line [OF d m, of name]
  have "\<exists>ed em owner_lines.
            stdout (snd (process_entry world s (name, a))) =
              stdout s @ header_line name a # devnet_line ed # mainnet_line em # owner_lines"
    by blast
  ultimately show ?thesis by blast
qed

lemma run_entries_append:
  "run_entries world s (xs @ ys) =
     (case run_entries world s xs of
        (Some e, s') \<Rightarrow> (Some e, s')
      | (None, s') \<Rightarrow> run_entries world s' ys)"
  by (induction xs arbitrary: s) (auto split: prod.splits option.splits)

lemma run_entries_expected:
  assumes "\<forall>i < length es.
      expected_shape (world (length (sent s) + 2 * i) (url_of ''devnet'') (payload (snd (es ! i)))) \<and>
      expected_shape (world (length (sent s) + 2 * i + 1) (url_of ''mainnet-beta'')
        (payload (snd (es ! i))))"
  shows "fst (run_entries world s es) = None \<and>
         sent (snd (run_entries world s es)) = sent s @ concat (map requests_of es) \<and>
         (\<exists>blocks. length blocks = length es \<and>
            stdout (snd (run_entries world s es)) = stdout s @ concat blocks \<and>
            (\<forall>i < length es. \<exists>ed em owner_lines.
               blocks ! i =
                 header_line (fst (es ! i)) (snd (es ! i)) # devnet_line ed # mainnet_line em # owner_lines))"
  using assms
proof (induction es arbitrary: s)
  case Nil
  then show ?case by simp
next
  case (Cons entry es)
  obtain name a where entry: "entry = (name, a)" by (cases entry)
  let ?p = "process_entry world s (name, a)"
  from Cons.prems [rule_format, of 0] entry
  have e0: "expected_shape (world (length (sent s)) (url_of ''devnet'') (payload a))"
    "expected_shape (world (Suc (length (sent s))) (url_of ''mainnet-beta'') (payload a))"
    by simp_all
  from process_entry_expected [where world = world and s = s and name = name, OF e0]
  obtain ed em owner_lines
    where ok: "fst ?p = None"
      and log: "sent (snd ?p) = sent s @ requests_of (name, a)"
      and out: "stdout (snd ?p) = stdout s @ header_line name a # devnet_line ed # mainnet_line em # owner_lines"
    by blast
  from ok have p: "?p = (None, snd ?p)"
    by (metis prod.collapse)
  have step: "run_entries world s (entry # es) = run_entries world (snd ?p) es"
    using entry p by (metis (no_types, lifting) case_prod_conv option.simps(4) run_entries.simps(2))
  have "\<forall>i < length es.
      expected_shape (world (length (sent (snd ?p)) + 2 * i) (url_of ''devnet'')
        (payload (snd (es ! i)))) \<and>
      expected_shape (world (length (sent (snd ?p)) + 2 * i + 1) (url_of ''mainnet-beta'')
        (payload (snd (es ! i))))"
  proof (intro allI impI)
    fix i assume "i < length es"
    with Cons.prems [rule_format, of "Suc i"] show
      "expected_shape (world (length (sent (snd ?p)) + 2 * i) (url_of ''devnet'')
        (payload (snd (es ! i)))) \<and>
      expected_shape (world (length (sent (snd ?p)) + 2 * i + 1) (url_of ''mainnet-beta'')
        (payload (snd (es ! i))))"
      by (simp add: log requests_of_def)
  qed
  from Cons.IH [where s = "snd ?p", OF this] obtain blocks
    where ih1: "fst (run_entries world (snd ?p) es) = None"
      and ih2: "sent (snd (run_entries world (snd ?p) es)) = sent (snd ?p) @ concat (map requests_of es)"
      and ih3: "length blocks = length es"
      and ih4: "stdout (snd (run_entries world (snd ?p) es)) = stdout (snd ?p) @ concat blocks"
      and ih5: "\<forall>i < length es. \<exists>ed em owner_lines.
               blocks ! i =
                 header_line (fst (es ! i)) (snd (es ! i)) # devnet_line ed # mainnet_line em # owner_lines"
    by blast
  let ?b = "header_line name a # devnet_line ed # mainnet_line em # owner_lines"
  have "length (?b # blocks) = length (entry # es)" using ih3 by simp
  moreover have "stdout (snd (run_entries world s (entry # es))) = stdout s @ concat (?b # blocks)"
    using step ih4 out by simp
  moreover have "\<forall>i < length (entry # es). \<exists>ed em owner_lines.
               (?b # blocks) ! i =
                 header_line (fst ((entry # es) ! i)) (snd ((entry # es) ! i)) #
                   devnet_line ed # mainnet_line em # owner_lines"
  proof (intro allI impI)
    fix i assume "i < length (entry # es)"
    then show "\<exists>ed em owner_lines.
               (?b # blocks) ! i =
                 header_line (fst ((entry # es) ! i)) (snd ((entry # es) ! i)) #
                   devnet_line ed # mainnet_line em # owner_lines"
      using ih5 entry by (cases i) auto
  qed
  ultimately have "\<exists>blocks. length blocks = length (entry # es) \<and>
            stdout (snd (run_entries world s (entry # es))) = stdout s @ concat blocks \<and>
            (\<forall>i < length (entry # es). \<exists>ed em owner_lines.
               blocks ! i =
                 header_line (fst ((entry # es) ! i)) (snd ((entry # es) ! i)) #
                   devnet_line ed # mainnet_line em # owner_lines)"
    by blast
  moreover have "fst (run_entries world s (entry # es)) = None"
    using step ih1 by simp
  moreover have "sent (snd (run_entries world s (entry # es))) =
      sent s @ concat (map requests_of (entry # es))"
    using step ih2 log entry by simp
  ultimately show ?case by blast
qed

lemma report_owner_status:
  assumes "subscript r ''value'' = Inr v"
  shows "fst (report_owner True r s) =
     (case v of
        JObject acct \<Rightarrow>
          (case map_of acct ''owner'' of
             None \<Rightarrow> None
           | Some ow \<Rightarrow> if can_encode (Owner ow) then None else Some UnicodeEncodeError)
      | JNull \<Rightarrow> None
      | JArray xs \<Rightarrow> if JString ''owner'' \<in> set xs then Some TypeError else None
      | JString t \<Rightarrow> if str_contains ''owner'' t then Some TypeError else None
      | other \<Rightarrow> if truthy other then Some TypeError else None)"
proof (cases v)
  case (JObject acct)
  from assms have v: "field_of r ''value'' = Some v" by (simp add: subscript_Inr)
  show ?thesis
  proof (cases "map_of acct ''owner''")
    case None
    with JObject assms show ?thesis by (simp add: report_owner_def)
  next
    case (Some ow)
    with JObject have ow: "field_of v ''owner'' = Some ow" by simp
    show ?thesis
    proof (cases "can_encode (Owner ow)")
      case True
      with report_owner_prints_owner [OF v ow True, of s] JObject Some show ?thesis by simp
    next
      case False
      with report_owner_refused [OF v ow False, of s] JObject Some show ?thesis by simp
    qed
  qed
next
  case (JArray xs)
  with assms show ?thesis by (cases xs) (auto simp: report_owner_def split: bool.splits)
next
  case (JString t)
  with assms show ?thesis by (cases t) (auto simp: report_owner_def split: bool.splits)
qed (use assms in \<open>auto simp: report_owner_def\<close>)

section \<open>The claims about the report\<close>

text \<open>
  C3. In the report of one entry, a reply with an \<^verbatim>\<open>error\<close> key and a reply whose
  \<^verbatim>\<open>result.value\<close> is null give the same existence line, the "NOT FOUND" one. For the
  DevNet line: in two runs, one with each kind of reply to the DevNet request, the line
  after the header is the same. For the Mainnet line: in two runs whose DevNet checks
  returned, one with each kind of reply to the Mainnet request, the line after the DevNet
  line is the same.
\<close>

theorem rpc_error_prints_not_found:
  "(world1 (length (sent s1)) (url_of ''devnet'') (payload a) = Response (Some data1) \<and>
    field_of data1 ''error'' = Some err \<and>
    world2 (length (sent s2)) (url_of ''devnet'') (payload a) = Response (Some data2) \<and>
    field_of data2 ''error'' = None \<and> field_of data2 ''result'' = Some res \<and>
    field_of res ''value'' = Some JNull \<longrightarrow>
    (\<exists>rest1 rest2.
       stdout (snd (process_entry world1 s1 (name, a))) =
         stdout s1 @ header_line name a #
           Text (''   DevNet: '' @ cross_mark @ '' NOT FOUND'') # rest1 \<and>
       stdout (snd (process_entry world2 s2 (name, a))) =
         stdout s2 @ header_line name a #
           Text (''   DevNet: '' @ cross_mark @ '' NOT FOUND'') # rest2)) \<and>
   (fst (check_account world1 (sent s1) a ''devnet'') = Inr (ed1, rd1) \<and>
    fst (check_account world2 (sent s2) a ''devnet'') = Inr (ed2, rd2) \<and>
    world1 (Suc (length (sent s1))) (url_of ''mainnet-beta'') (payload a) = Response (Some data1) \<and>
    field_of data1 ''error'' = Some err \<and>
    world2 (Suc (length (sent s2))) (url_of ''mainnet-beta'') (payload a) = Response (Some data2) \<and>
    field_of data2 ''error'' = None \<and> field_of data2 ''result'' = Some res \<and>
    field_of res ''value'' = Some JNull \<longrightarrow>
    (\<exists>rest1 rest2.
       stdout (snd (process_entry world1 s1 (name, a))) =
         stdout s1 @ header_line name a # devnet_line ed1 #
           Text (''   Mainnet: '' @ cross_mark @ '' NOT FOUND'') # rest1 \<and>
       stdout (snd (process_entry world2 s2 (name, a))) =
         stdout s2 @ header_line name a # devnet_line ed2 #
           Text (''   Mainnet: '' @ cross_mark @ '' NOT FOUND'') # rest2))"
proof (intro conjI impI)
  assume h: "world1 (length (sent s1)) (url_of ''devnet'') (payload a) = Response (Some data1) \<and>
    field_of data1 ''error'' = Some err \<and>
    world2 (length (sent s2)) (url_of ''devnet'') (payload a) = Response (Some data2) \<and>
    field_of data2 ''error'' = None \<and> field_of data2 ''result'' = Some res \<and>
    field_of res ''value'' = Some JNull"
  then have r1: "read_body data1 = Inr (False, err)" and r2: "read_body data2 = Inr (False, res)"
    by (simp_all add: read_body_Inr)
  from h r1 have c1: "fst (check_account world1 (sent s1) a ''devnet'') = Inr (False, err)"
    by (simp add: check_account_Response)
  from h r2 have c2: "fst (check_account world2 (sent s2) a ''devnet'') = Inr (False, res)"
    by (simp add: check_account_Response)
  from process_entry_devnet_line [OF c1, of name] process_entry_devnet_line [OF c2, of name]
  show "\<exists>rest1 rest2.
       stdout (snd (process_entry world1 s1 (name, a))) =
         stdout s1 @ header_line name a #
           Text (''   DevNet: '' @ cross_mark @ '' NOT FOUND'') # rest1 \<and>
       stdout (snd (process_entry world2 s2 (name, a))) =
         stdout s2 @ header_line name a #
           Text (''   DevNet: '' @ cross_mark @ '' NOT FOUND'') # rest2"
    by (auto simp: devnet_line_def)
next
  assume h: "fst (check_account world1 (sent s1) a ''devnet'') = Inr (ed1, rd1) \<and>
    fst (check_account world2 (sent s2) a ''devnet'') = Inr (ed2, rd2) \<and>
    world1 (Suc (length (sent s1))) (url_of ''mainnet-beta'') (payload a) = Response (Some data1) \<and>
    field_of data1 ''error'' = Some err \<and>
    world2 (Suc (length (sent s2))) (url_of ''mainnet-beta'') (payload a) = Response (Some data2) \<and>
    field_of data2 ''error'' = None \<and> field_of data2 ''result'' = Some res \<and>
    field_of res ''value'' = Some JNull"
  then have r1: "read_body data1 = Inr (False, err)" and r2: "read_body data2 = Inr (False, res)"
    by (simp_all add: read_body_Inr)
  from h r1 have c1: "fst (check_account world1 (sent s1 @ [(url_of ''devnet'', payload a)]) a
      ''mainnet-beta'') = Inr (False, err)"
    by (simp add: check_account_Response)
  from h r2 have c2: "fst (check_account world2 (sent s2 @ [(url_of ''devnet'', payload a)]) a
      ''mainnet-beta'') = Inr (False, res)"
    by (simp add: check_account_Response)
  from h have d1: "fst (check_account world1 (sent s1) a ''devnet'') = Inr (ed1, rd1)"
    and d2: "fst (check_account world2 (sent s2) a ''devnet'') = Inr (ed2, rd2)"
    by simp_all
  from process_entry_mainnet_line [OF d1 c1, of name] process_entry_mainnet_line [OF d2 c2, of name]
  show "\<exists>rest1 rest2.
       stdout (snd (process_entry world1 s1 (name, a))) =
         stdout s1 @ header_line name a # devnet_line ed1 #
           Text (''   Mainnet: '' @ cross_mark @ '' NOT FOUND'') # rest1 \<and>
       stdout (snd (process_entry world2 s2 (name, a))) =
         stdout s2 @ header_line name a # devnet_line ed2 #
           Text (''   Mainnet: '' @ cross_mark @ '' NOT FOUND'') # rest2"
    by (auto simp: mainnet_line_def)
qed

theorem rpc_error_prints_not_found_witness:
  "stdout (snd (process_entry (always error_reply) initial (''SOL'', sol))) ! 1 =
     Text (''   DevNet: '' @ cross_mark @ '' NOT FOUND'') \<and>
   stdout (snd (process_entry (always (rpc_reply JNull)) initial (''SOL'', sol))) ! 1 =
     Text (''   DevNet: '' @ cross_mark @ '' NOT FOUND'') \<and>
   stdout (snd (process_entry (always error_reply) initial (''SOL'', sol))) ! 2 =
     Text (''   Mainnet: '' @ cross_mark @ '' NOT FOUND'') \<and>
   stdout (snd (process_entry (always (rpc_reply JNull)) initial (''SOL'', sol))) ! 2 =
     Text (''   Mainnet: '' @ cross_mark @ '' NOT FOUND'')"
proof -
  let ?w1 = "always error_reply" and ?w2 = "always (rpc_reply JNull)"
  let ?err = "JObject [(''code'', JInt (- 32602)), (''message'', JString ''Invalid param: Invalid'')]"
  have e: "field_of error_reply ''error'' = Some ?err"
    by (simp add: error_reply_def)
  have n: "field_of (rpc_reply JNull) ''error'' = None \<and>
      field_of (rpc_reply JNull) ''result'' = Some (rpc_result JNull) \<and>
      field_of (rpc_result JNull) ''value'' = Some JNull"
    by (simp add: rpc_reply_def rpc_result_def)
  have w: "\<And>k u. ?w1 k u (payload sol) = Response (Some error_reply)"
    "\<And>k u. ?w2 k u (payload sol) = Response (Some (rpc_reply JNull))"
    by (simp_all add: always_def)
  have d1: "fst (check_account ?w1 (sent initial) sol ''devnet'') = Inr (False, ?err)"
    using e by (simp add: check_account_always read_body_Inr)
  have d2: "fst (check_account ?w2 (sent initial) sol ''devnet'') = Inr (False, rpc_result JNull)"
    by (simp add: check_account_always read_body_rpc_reply)
  note both = rpc_error_prints_not_found [of ?w1 initial sol error_reply ?err ?w2 initial
      "rpc_reply JNull" "rpc_result JNull" "''SOL''" False ?err False "rpc_result JNull"]
  from both [THEN conjunct1] e n w obtain a1 a2 where
    "stdout (snd (process_entry ?w1 initial (''SOL'', sol))) =
       stdout initial @ header_line ''SOL'' sol #
         Text (''   DevNet: '' @ cross_mark @ '' NOT FOUND'') # a1"
    "stdout (snd (process_entry ?w2 initial (''SOL'', sol))) =
       stdout initial @ header_line ''SOL'' sol #
         Text (''   DevNet: '' @ cross_mark @ '' NOT FOUND'') # a2"
    by auto
  moreover from both [THEN conjunct2] d1 d2 e n w obtain b1 b2 where
    "stdout (snd (process_entry ?w1 initial (''SOL'', sol))) =
       stdout initial @ header_line ''SOL'' sol # devnet_line False #
         Text (''   Mainnet: '' @ cross_mark @ '' NOT FOUND'') # b1"
    "stdout (snd (process_entry ?w2 initial (''SOL'', sol))) =
       stdout initial @ header_line ''SOL'' sol # devnet_line False #
         Text (''   Mainnet: '' @ cross_mark @ '' NOT FOUND'') # b2"
    by auto
  ultimately show ?thesis
    by (simp add: initial_def)
qed

text \<open>
  C4, as amended. For every entry whose Mainnet check returns: if the DevNet check
  returns the flag \<open>True\<close> and the account in \<^verbatim>\<open>result.value\<close> has an \<^verbatim>\<open>owner\<close> member that
  the console can encode, the entry ends normally and prints, after the header and the two
  existence lines, the owner line and then the "Owned by SPL Token Program" line when the
  owner is the Token Program address and the "Different owner" line otherwise. If the
  owner is a str with a lone surrogate, the entry ends with \<^verbatim>\<open>UnicodeEncodeError\<close> after the
  Mainnet line. For every entry, whatever the Mainnet check does: if the DevNet check does
  not return the flag \<open>True\<close> with an account that has an owner, the entry prints no owner
  line, only the header and existence lines it reached.
\<close>

theorem owner_report_follows_devnet:
  "(fst (check_account world (sent s) a ''devnet'') = Inr (True, rd) \<and>
    field_of rd ''value'' = Some acct \<and> field_of acct ''owner'' = Some ow \<and>
    fst (check_account world (sent s @ [(url_of ''devnet'', payload a)]) a ''mainnet-beta'') =
      Inr (em, rm) \<and>
    can_encode (Owner ow) \<longrightarrow>
    fst (process_entry world s (name, a)) = None \<and>
    stdout (snd (process_entry world s (name, a))) =
      stdout s @
        [header_line name a, devnet_line True, mainnet_line em, Owner ow,
         if ow = JString token_program then spl_line else different_line]) \<and>
   (fst (check_account world (sent s) a ''devnet'') = Inr (True, rd) \<and>
    field_of rd ''value'' = Some acct \<and> field_of acct ''owner'' = Some ow \<and>
    fst (check_account world (sent s @ [(url_of ''devnet'', payload a)]) a ''mainnet-beta'') =
      Inr (em, rm) \<and>
    \<not> can_encode (Owner ow) \<longrightarrow>
    fst (process_entry world s (name, a)) = Some UnicodeEncodeError \<and>
    stdout (snd (process_entry world s (name, a))) =
      stdout s @ [header_line name a, devnet_line True, mainnet_line em]) \<and>
   (\<not> (\<exists>r v x. fst (check_account world (sent s) a ''devnet'') = Inr (True, r) \<and>
          field_of r ''value'' = Some v \<and> field_of v ''owner'' = Some x) \<longrightarrow>
    (\<exists>e m k. stdout (snd (process_entry world s (name, a))) =
       stdout s @ take k [header_line name a, devnet_line e, mainnet_line m]))"
proof (intro conjI impI)
  assume h: "fst (check_account world (sent s) a ''devnet'') = Inr (True, rd) \<and>
    field_of rd ''value'' = Some acct \<and> field_of acct ''owner'' = Some ow \<and>
    fst (check_account world (sent s @ [(url_of ''devnet'', payload a)]) a ''mainnet-beta'') =
      Inr (em, rm) \<and>
    can_encode (Owner ow)"
  then have ro: "\<And>t. report_owner True rd t =
      (None, t\<lparr>stdout := stdout t @
         [Owner ow, if ow = JString token_program then spl_line else different_line]\<rparr>)"
    by (simp add: report_owner_prints_owner)
  from h show "fst (process_entry world s (name, a)) = None"
    by (simp add: process_entry_unfold ro)
  from h show "stdout (snd (process_entry world s (name, a))) =
      stdout s @
        [header_line name a, devnet_line True, mainnet_line em, Owner ow,
         if ow = JString token_program then spl_line else different_line]"
    by (simp add: process_entry_unfold ro)
next
  assume h: "fst (check_account world (sent s) a ''devnet'') = Inr (True, rd) \<and>
    field_of rd ''value'' = Some acct \<and> field_of acct ''owner'' = Some ow \<and>
    fst (check_account world (sent s @ [(url_of ''devnet'', payload a)]) a ''mainnet-beta'') =
      Inr (em, rm) \<and>
    \<not> can_encode (Owner ow)"
  then have ro: "\<And>t. report_owner True rd t = (Some UnicodeEncodeError, t)"
    by (simp add: report_owner_refused)
  from h show "fst (process_entry world s (name, a)) = Some UnicodeEncodeError"
    by (simp add: process_entry_unfold ro)
  from h show "stdout (snd (process_entry world s (name, a))) =
      stdout s @ [header_line name a, devnet_line True, mainnet_line em]"
    by (simp add: process_entry_unfold ro)
next
  assume no: "\<not> (\<exists>r v x. fst (check_account world (sent s) a ''devnet'') = Inr (True, r) \<and>
          field_of r ''value'' = Some v \<and> field_of v ''owner'' = Some x)"
  let ?out = "stdout (snd (process_entry world s (name, a)))"
  let ?three = "\<lambda>e m. [header_line name a, devnet_line e, mainnet_line m]"
  show "\<exists>e m k. ?out = stdout s @ take k (?three e m)"
  proof (cases "fst (check_account world (sent s) a ''devnet'')")
    case (Inl err)
    then have "?out = stdout s @ take 1 (?three False False)"
      by (simp add: process_entry_unfold)
    then show ?thesis by blast
  next
    case (Inr p)
    obtain ed rd' where p: "p = (ed, rd')" by (cases p)
    show ?thesis
    proof (cases "fst (check_account world (sent s @ [(url_of ''devnet'', payload a)]) a
                        ''mainnet-beta'')")
      case (Inl err)
      with Inr p have "?out = stdout s @ take 2 (?three ed False)"
        by (simp add: process_entry_unfold)
      then show ?thesis by blast
    next
      case (Inr q)
      obtain m rm' where q: "q = (m, rm')" by (cases q)
      from no \<open>fst (check_account world (sent s) a ''devnet'') = Inr p\<close> p
      have "\<not> (ed \<and> (\<exists>v x. field_of rd' ''value'' = Some v \<and> field_of v ''owner'' = Some x))"
        by auto
      then have "\<And>t. snd (report_owner ed rd' t) = t"
        by (rule report_owner_silent)
      with Inr q \<open>fst (check_account world (sent s) a ''devnet'') = Inr p\<close> p
      have "?out = stdout s @ take 3 (?three ed m)"
        by (simp add: process_entry_unfold)
      then show ?thesis by blast
    qed
  qed
qed

theorem owner_report_follows_devnet_witness:
  "stdout (snd (process_entry (always (rpc_reply (account_info (JString ''11111111111111111111111111111111''))))
                  initial (''SOL'', sol))) =
     [header_line ''SOL'' sol, devnet_line True, mainnet_line True,
      Owner (JString ''11111111111111111111111111111111''), different_line] \<and>
   fst (process_entry (always (rpc_reply (account_info (JString lone_surrogate))))
          initial (''SOL'', sol)) = Some UnicodeEncodeError \<and>
   stdout (snd (process_entry (always (rpc_reply (account_info (JString lone_surrogate))))
                  initial (''SOL'', sol))) =
     [header_line ''SOL'' sol, devnet_line True, mainnet_line True] \<and>
   length (stdout (snd (process_entry (always (rpc_reply JNull)) initial (''SOL'', sol)))) \<le> 3"
proof -
  let ?ow = "JString ''11111111111111111111111111111111''"
  let ?bad = "JString lone_surrogate"
  let ?w1 = "always (rpc_reply (account_info ?ow))" and ?w2 = "always (rpc_reply JNull)"
  let ?w3 = "always (rpc_reply (account_info ?bad))"
  have c: "\<And>log net. fst (check_account ?w1 log sol net) = Inr (True, rpc_result (account_info ?ow))"
    by (simp add: check_account_always read_body_rpc_reply account_info_def)
  have f: "field_of (rpc_result (account_info ?ow)) ''value'' = Some (account_info ?ow)"
    "field_of (account_info ?ow) ''owner'' = Some ?ow"
    by (simp_all add: rpc_result_def account_info_def)
  have e: "can_encode (Owner ?ow)"
    by simp
  have c3: "\<And>log net. fst (check_account ?w3 log sol net) = Inr (True, rpc_result (account_info ?bad))"
    by (simp add: check_account_always read_body_rpc_reply account_info_def)
  have f3: "field_of (rpc_result (account_info ?bad)) ''value'' = Some (account_info ?bad)"
    "field_of (account_info ?bad) ''owner'' = Some ?bad"
    by (simp_all add: rpc_result_def account_info_def)
  have e3: "\<not> can_encode (Owner ?bad)"
    by (simp add: lone_surrogate_def)
  have "\<And>log. fst (check_account ?w2 log sol ''devnet'') = Inr (False, rpc_result JNull)"
    by (simp add: check_account_always read_body_rpc_reply)
  then have no: "\<not> (\<exists>r v x. fst (check_account ?w2 (sent initial) sol ''devnet'') = Inr (True, r) \<and>
      field_of r ''value'' = Some v \<and> field_of v ''owner'' = Some x)"
    by simp
  from owner_report_follows_devnet [of ?w1 initial sol "rpc_result (account_info ?ow)"
      "account_info ?ow" ?ow True "rpc_result (account_info ?ow)" "''SOL''", THEN conjunct1] c f e
  have "stdout (snd (process_entry ?w1 initial (''SOL'', sol))) =
     [header_line ''SOL'' sol, devnet_line True, mainnet_line True, Owner ?ow, different_line]"
    by (simp add: initial_def token_program_def)
  moreover from owner_report_follows_devnet [of ?w3 initial sol "rpc_result (account_info ?bad)"
      "account_info ?bad" ?bad True "rpc_result (account_info ?bad)" "''SOL''",
      THEN conjunct2, THEN conjunct1] c3 f3 e3
  have "fst (process_entry ?w3 initial (''SOL'', sol)) = Some UnicodeEncodeError \<and>
    stdout (snd (process_entry ?w3 initial (''SOL'', sol))) =
     [header_line ''SOL'' sol, devnet_line True, mainnet_line True]"
    by (simp add: initial_def)
  moreover from owner_report_follows_devnet [of ?w2 initial sol _ _ _ _ _ "''SOL''",
      THEN conjunct2, THEN conjunct2] no
  have "length (stdout (snd (process_entry ?w2 initial (''SOL'', sol)))) \<le> 3"
    by (auto simp: initial_def)
  ultimately show ?thesis by simp
qed

text \<open>
  The statement as first made fails in two ways. In the first run the DevNet check finds
  the account with its owner and the Mainnet call cannot be completed: the entry ends with
  the exception after the DevNet line. In the second both checks find the account and its
  owner is the str \<^verbatim>\<open>"\ud800"\<close>: line 59 raises and the entry ends after the Mainnet line.
  Neither run prints an owner line.
\<close>

theorem owner_report_follows_devnet_counterexample:
  "fst (check_account
         (by_url (Response (Some (rpc_reply (account_info (JString token_program)))))
            Transport_failure)
         [] sol ''devnet'') =
     Inr (True, rpc_result (account_info (JString token_program))) \<and>
   field_of (rpc_result (account_info (JString token_program))) ''value'' =
     Some (account_info (JString token_program)) \<and>
   field_of (account_info (JString token_program)) ''owner'' = Some (JString token_program) \<and>
   process_entry
     (by_url (Response (Some (rpc_reply (account_info (JString token_program)))))
        Transport_failure)
     initial (''SOL'', sol) =
     (Some RequestException,
      \<lparr>sent = [(''https://api.devnet.solana.com'', payload sol),
               (''https://api.mainnet-beta.solana.com'', payload sol)],
       stdout = [header_line ''SOL'' sol, devnet_line True]\<rparr>) \<and>
   fst (check_account (always (rpc_reply (account_info (JString lone_surrogate)))) [] sol
          ''devnet'') =
     Inr (True, rpc_result (account_info (JString lone_surrogate))) \<and>
   field_of (rpc_result (account_info (JString lone_surrogate))) ''value'' =
     Some (account_info (JString lone_surrogate)) \<and>
   field_of (account_info (JString lone_surrogate)) ''owner'' = Some (JString lone_surrogate) \<and>
   process_entry (always (rpc_reply (account_info (JString lone_surrogate)))) initial
     (''SOL'', sol) =
     (Some UnicodeEncodeError,
      \<lparr>sent = [(''https://api.devnet.solana.com'', payload sol),
               (''https://api.mainnet-beta.solana.com'', payload sol)],
       stdout = [header_line ''SOL'' sol, devnet_line True, mainnet_line True]\<rparr>)"
proof -
  let ?w = "by_url (Response (Some (rpc_reply (account_info (JString token_program)))))
        Transport_failure"
  let ?bad = "JString lone_surrogate"
  let ?v = "always (rpc_reply (account_info ?bad))"
  have d: "fst (check_account ?w [] sol ''devnet'') =
      Inr (True, rpc_result (account_info (JString token_program)))"
    by (simp add: check_account_by_url_devnet read_body_rpc_reply account_info_def)
  have m: "fst (check_account ?w [(url_of ''devnet'', payload sol)] sol ''mainnet-beta'') =
      Inl RequestException"
    by (simp add: check_account_by_url_failure)
  have f: "field_of (rpc_result (account_info (JString token_program))) ''value'' =
     Some (account_info (JString token_program))"
    by (simp add: rpc_result_def)
  have g: "field_of (account_info (JString token_program)) ''owner'' = Some (JString token_program)"
    by (simp add: account_info_def)
  have p: "process_entry ?w initial (''SOL'', sol) =
     (Some RequestException,
      \<lparr>sent = [(''https://api.devnet.solana.com'', payload sol),
               (''https://api.mainnet-beta.solana.com'', payload sol)],
       stdout = [header_line ''SOL'' sol, devnet_line True]\<rparr>)"
    using d m by (simp add: process_entry_unfold initial_def) (simp add: url_of_def)
  have c: "\<And>log net. fst (check_account ?v log sol net) = Inr (True, rpc_result (account_info ?bad))"
    by (simp add: check_account_always read_body_rpc_reply account_info_def)
  have f': "field_of (rpc_result (account_info ?bad)) ''value'' = Some (account_info ?bad)"
    and g': "field_of (account_info ?bad) ''owner'' = Some ?bad"
    by (simp_all add: rpc_result_def account_info_def)
  have "\<not> can_encode (Owner ?bad)"
    by (simp add: lone_surrogate_def)
  with f' g' have r: "\<And>t. report_owner True (rpc_result (account_info ?bad)) t =
      (Some UnicodeEncodeError, t)"
    by (simp add: report_owner_refused)
  have q: "process_entry ?v initial (''SOL'', sol) =
     (Some UnicodeEncodeError,
      \<lparr>sent = [(''https://api.devnet.solana.com'', payload sol),
               (''https://api.mainnet-beta.solana.com'', payload sol)],
       stdout = [header_line ''SOL'' sol, devnet_line True, mainnet_line True]\<rparr>)"
    by (simp add: process_entry_unfold c r initial_def url_of_def)
  from d f g p c [of "[]" "''devnet''"] f' g' q show ?thesis by simp
qed

text \<open>
  C5, as amended. For the entry with address So11111111111111111111111111111111111111112:
  if the DevNet check returns the flag \<open>True\<close> with an account whose owner is the Token
  Program address, and the Mainnet check returns, the entry prints the owner line and then
  "Owned by SPL Token Program". The line follows the DevNet reply, not the Mainnet one.
\<close>

theorem sol_owner_line_from_devnet:
  assumes "fst (check_account world (sent s) ''So11111111111111111111111111111111111111112''
             ''devnet'') = Inr (True, rd)"
    and "field_of rd ''value'' = Some acct"
    and "field_of acct ''owner'' = Some (JString ''TokenkegQfeZyiNwAJbNbGKPFXCWuBvf9Ss623VQ5DA'')"
    and "fst (check_account world
               (sent s @ [(url_of ''devnet'',
                           payload ''So11111111111111111111111111111111111111112'')])
               ''So11111111111111111111111111111111111111112'' ''mainnet-beta'') = Inr (em, rm)"
  shows "stdout (snd (process_entry world s
                        (''SOL'', ''So11111111111111111111111111111111111111112''))) =
           stdout s @
             [header_line ''SOL'' ''So11111111111111111111111111111111111111112'',
              devnet_line True, mainnet_line em,
              Owner (JString ''TokenkegQfeZyiNwAJbNbGKPFXCWuBvf9Ss623VQ5DA''),
              Text (''   '' @ check_mark @ '' Owned by SPL Token Program'')]"
proof -
  from assms(2,3) have "\<And>t. report_owner True rd t =
      (None, t\<lparr>stdout := stdout t @ [Owner (JString token_program), spl_line]\<rparr>)"
    by (simp add: report_owner_prints_owner token_program_def)
  with assms(1,4) show ?thesis
    by (simp add: process_entry_unfold token_program_def spl_line_def)
qed

theorem sol_owner_line_from_devnet_witness:
  "fst (check_account (always (rpc_reply (account_info (JString token_program)))) [] sol
          ''devnet'') =
     Inr (True, rpc_result (account_info (JString token_program))) \<and>
   stdout (snd (process_entry (always (rpc_reply (account_info (JString token_program))))
                  initial (''SOL'', sol))) =
     [header_line ''SOL'' sol, devnet_line True, mainnet_line True,
      Owner (JString token_program), spl_line]"
proof -
  let ?w = "always (rpc_reply (account_info (JString token_program)))"
  let ?rd = "rpc_result (account_info (JString token_program))"
  have d: "fst (check_account ?w (sent initial) ''So11111111111111111111111111111111111111112''
      ''devnet'') = Inr (True, ?rd)"
    by (simp add: check_account_always read_body_rpc_reply account_info_def)
  have m: "fst (check_account ?w
        (sent initial @ [(url_of ''devnet'', payload ''So11111111111111111111111111111111111111112'')])
        ''So11111111111111111111111111111111111111112'' ''mainnet-beta'') = Inr (True, ?rd)"
    by (simp add: check_account_always read_body_rpc_reply account_info_def)
  have f: "field_of ?rd ''value'' = Some (account_info (JString token_program))"
    by (simp add: rpc_result_def)
  have g: "field_of (account_info (JString token_program)) ''owner'' =
      Some (JString ''TokenkegQfeZyiNwAJbNbGKPFXCWuBvf9Ss623VQ5DA'')"
    by (simp add: account_info_def token_program_def)
  from sol_owner_line_from_devnet [OF d f g m] d show ?thesis
    by (simp add: sol_def initial_def token_program_def spl_line_def)
qed

text \<open>
  The Mainnet reply alone does not give the line: here the Mainnet check finds the account
  owned by the Token Program, the DevNet check finds nothing, and the entry prints its
  header and the two existence lines only.
\<close>

theorem sol_owner_line_from_devnet_counterexample:
  "fst (check_account
          (by_url (Response (Some (rpc_reply JNull)))
             (Response (Some (rpc_reply (account_info (JString token_program))))))
          [(url_of ''devnet'', payload sol)] sol ''mainnet-beta'') =
     Inr (True, rpc_result (account_info (JString token_program))) \<and>
   field_of (rpc_result (account_info (JString token_program))) ''value'' =
     Some (account_info (JString token_program)) \<and>
   field_of (account_info (JString token_program)) ''owner'' = Some (JString token_program) \<and>
   process_entry
     (by_url (Response (Some (rpc_reply JNull)))
        (Response (Some (rpc_reply (account_info (JString token_program))))))
     initial (''SOL'', sol) =
     (None,
      \<lparr>sent = [(''https://api.devnet.solana.com'', payload sol),
               (''https://api.mainnet-beta.solana.com'', payload sol)],
       stdout = [header_line ''SOL'' sol, devnet_line False, mainnet_line True]\<rparr>)"
proof -
  let ?w = "by_url (Response (Some (rpc_reply JNull)))
        (Response (Some (rpc_reply (account_info (JString token_program)))))"
  have d: "fst (check_account ?w [] sol ''devnet'') = Inr (False, rpc_result JNull)"
    by (simp add: check_account_by_url_devnet read_body_rpc_reply)
  have m: "fst (check_account ?w [(url_of ''devnet'', payload sol)] sol ''mainnet-beta'') =
      Inr (True, rpc_result (account_info (JString token_program)))"
    by (simp add: check_account_by_url_mainnet read_body_rpc_reply account_info_def)
  have f: "field_of (rpc_result (account_info (JString token_program))) ''value'' =
     Some (account_info (JString token_program))"
    by (simp add: rpc_result_def)
  have g: "field_of (account_info (JString token_program)) ''owner'' = Some (JString token_program)"
    by (simp add: account_info_def)
  have p: "process_entry ?w initial (''SOL'', sol) =
     (None,
      \<lparr>sent = [(''https://api.devnet.solana.com'', payload sol),
               (''https://api.mainnet-beta.solana.com'', payload sol)],
       stdout = [header_line ''SOL'' sol, devnet_line False, mainnet_line True]\<rparr>)"
    using d m by (simp add: process_entry_unfold initial_def report_owner_def) (simp add: url_of_def)
  from m f g p show ?thesis by simp
qed

text \<open>
  C7. Two entries with the same address, under any two labels: when the DevNet request
  of both gets the same answer and the Mainnet request of both gets the same answer,
  \<open>check_account\<close> returns the same on each network, both entries end the same way (normally,
  or with the same exception), and what they print after their header lines is the same.
  Only the header line shows the label.
\<close>

theorem same_address_same_report:
  assumes "world1 (length (sent s1)) (url_of ''devnet'') (payload a) =
           world2 (length (sent s2)) (url_of ''devnet'') (payload a)"
    and "world1 (Suc (length (sent s1))) (url_of ''mainnet-beta'') (payload a) =
         world2 (Suc (length (sent s2))) (url_of ''mainnet-beta'') (payload a)"
  shows "fst (check_account world1 (sent s1) a ''devnet'') =
           fst (check_account world2 (sent s2) a ''devnet'') \<and>
         fst (check_account world1 (sent s1 @ [(url_of ''devnet'', payload a)]) a ''mainnet-beta'') =
           fst (check_account world2 (sent s2 @ [(url_of ''devnet'', payload a)]) a ''mainnet-beta'') \<and>
         fst (process_entry world1 s1 (name1, a)) = fst (process_entry world2 s2 (name2, a)) \<and>
         (\<exists>block.
            stdout (snd (process_entry world1 s1 (name1, a))) =
              stdout s1 @ header_line name1 a # block \<and>
            stdout (snd (process_entry world2 s2 (name2, a))) =
              stdout s2 @ header_line name2 a # block)"
proof -
  let ?d1 = "fst (check_account world1 (sent s1) a ''devnet'')"
  let ?d2 = "fst (check_account world2 (sent s2) a ''devnet'')"
  let ?m1 = "fst (check_account world1 (sent s1 @ [(url_of ''devnet'', payload a)]) a ''mainnet-beta'')"
  let ?m2 = "fst (check_account world2 (sent s2 @ [(url_of ''devnet'', payload a)]) a ''mainnet-beta'')"
  from assms(1) have d: "?d1 = ?d2"
    by (rule check_account_cong)
  from assms(2) have m: "?m1 = ?m2"
    by (intro check_account_cong) simp
  have "fst (process_entry world1 s1 (name1, a)) = fst (process_entry world2 s2 (name2, a)) \<and>
         (\<exists>block.
            stdout (snd (process_entry world1 s1 (name1, a))) =
              stdout s1 @ header_line name1 a # block \<and>
            stdout (snd (process_entry world2 s2 (name2, a))) =
              stdout s2 @ header_line name2 a # block)"
  proof (cases ?d2)
    case (Inl e)
    with d show ?thesis by (simp add: process_entry_unfold)
  next
    case (Inr p)
    obtain ed rd where p: "p = (ed, rd)" by (cases p)
    show ?thesis
    proof (cases ?m2)
      case (Inl e)
      with Inr p d m show ?thesis by (simp add: process_entry_unfold)
    next
      case (Inr q)
      obtain em rm where q: "q = (em, rm)" by (cases q)
      from Inr q \<open>?d2 = Inr p\<close> p d m show ?thesis
        by (simp add: process_entry_unfold report_owner_block [where s = "_\<lparr>stdout := _\<rparr>"])
    qed
  qed
  with d m show ?thesis by simp
qed

theorem same_address_same_report_witness:
  "(''USDC (current)'', four_k) \<in> set tokens \<and> (''RAY'', four_k) \<in> set tokens \<and>
   fst (process_entry
          (by_url (Response (Some (rpc_reply (account_info (JString token_program)))))
             (Response (Some (rpc_reply JNull))))
          initial (''USDC (current)'', four_k)) =
   fst (process_entry
          (by_url (Response (Some (rpc_reply (account_info (JString token_program)))))
             (Response (Some (rpc_reply JNull))))
          (snd (process_entry
                  (by_url (Response (Some (rpc_reply (account_info (JString token_program)))))
                     (Response (Some (rpc_reply JNull))))
                  initial (''USDC (current)'', four_k)))
          (''RAY'', four_k)) \<and>
   tl (stdout (snd (process_entry
          (by_url (Response (Some (rpc_reply (account_info (JString token_program)))))
             (Response (Some (rpc_reply JNull))))
          initial (''USDC (current)'', four_k)))) =
   tl (drop 5 (stdout (snd (process_entry
          (by_url (Response (Some (rpc_reply (account_info (JString token_program)))))
             (Response (Some (rpc_reply JNull))))
          (snd (process_entry
                  (by_url (Response (Some (rpc_reply (account_info (JString token_program)))))
                     (Response (Some (rpc_reply JNull))))
                  initial (''USDC (current)'', four_k)))
          (''RAY'', four_k)))))"
proof -
  let ?w = "by_url (Response (Some (rpc_reply (account_info (JString token_program)))))
             (Response (Some (rpc_reply JNull)))"
  let ?s2 = "snd (process_entry ?w initial (''USDC (current)'', four_k))"
  have t: "(''USDC (current)'', four_k) \<in> set tokens \<and> (''RAY'', four_k) \<in> set tokens"
    by (simp add: tokens_def four_k_def)
  have d: "?w (length (sent initial)) (url_of ''devnet'') (payload four_k) =
      ?w (length (sent ?s2)) (url_of ''devnet'') (payload four_k)"
    by (simp add: by_url_def)
  have m: "?w (Suc (length (sent initial))) (url_of ''mainnet-beta'') (payload four_k) =
      ?w (Suc (length (sent ?s2))) (url_of ''mainnet-beta'') (payload four_k)"
    by (simp add: by_url_def)
  have c: "fst (check_account ?w (sent initial) four_k ''devnet'') =
      Inr (True, rpc_result (account_info (JString token_program)))"
    "fst (check_account ?w (sent initial @ [(url_of ''devnet'', payload four_k)]) four_k
      ''mainnet-beta'') = Inr (False, rpc_result JNull)"
    by (simp_all add: check_account_by_url_devnet check_account_by_url_mainnet read_body_rpc_reply
        account_info_def)
  have f: "field_of (rpc_result (account_info (JString token_program))) ''value'' =
      Some (account_info (JString token_program))"
    "field_of (account_info (JString token_program)) ''owner'' = Some (JString token_program)"
    by (simp_all add: rpc_result_def account_info_def)
  have len: "length (stdout ?s2) = 5"
    using c
    by (simp add: process_entry_unfold report_owner_prints_owner [OF f token_program_encodes]
        initial_def)
  from same_address_same_report [of ?w initial four_k ?w ?s2 "''USDC (current)''" "''RAY''", OF d m]
  obtain block where
    "fst (process_entry ?w initial (''USDC (current)'', four_k)) =
     fst (process_entry ?w ?s2 (''RAY'', four_k))"
    "stdout (snd (process_entry ?w initial (''USDC (current)'', four_k))) =
       stdout initial @ header_line ''USDC (current)'' four_k # block"
    "stdout (snd (process_entry ?w ?s2 (''RAY'', four_k))) =
       stdout ?s2 @ header_line ''RAY'' four_k # block"
    by blast
  with t len show ?thesis
    by (simp add: initial_def)
qed

text \<open>
  C8. A malformed reply makes \<open>check_account\<close> raise, and the exception ends the program.
  Let the table be \<open>before\<close>, then the entry \<open>(name, a)\<close>, then \<open>rest\<close>, and let the entries
  of \<open>before\<close> have run normally up to the state \<open>s\<close>. If the reply to the DevNet request
  of \<open>(name, a)\<close> is malformed, the program ends with an exception and exit status 1,
  having sent only that request and printed only the header line after what \<open>s\<close> holds.
  If the DevNet check returns and the reply to the Mainnet request is malformed, it ends
  the same way after the two requests, the header line and the DevNet line. No request is
  made for \<open>rest\<close>, and the output of the earlier entries stays.
\<close>

theorem malformed_reply_aborts_run:
  assumes "tokens = before @ (name, a) # rest"
    and "run_entries world \<lparr>sent = [], stdout = [title_line, rule_line]\<rparr> before = (None, s)"
  shows "(malformed (world (length log) (url_of net) (payload b)) \<longrightarrow>
          (\<exists>e. fst (check_account world log b net) = Inl e)) \<and>
         (malformed (world (length (sent s)) (url_of ''devnet'') (payload a)) \<longrightarrow>
          (\<exists>e. main world =
                  (Some e,
                   s\<lparr>sent := sent s @ [(url_of ''devnet'', payload a)],
                     stdout := stdout s @ [header_line name a]\<rparr>) \<and>
                exit_code (fst (main world)) = 1)) \<and>
         (fst (check_account world (sent s) a ''devnet'') = Inr (ed, rd) \<and>
          malformed (world (Suc (length (sent s))) (url_of ''mainnet-beta'') (payload a)) \<longrightarrow>
          (\<exists>e. main world =
                  (Some e,
                   s\<lparr>sent := sent s @ [(url_of ''devnet'', payload a),
                                       (url_of ''mainnet-beta'', payload a)],
                     stdout := stdout s @ [header_line name a, devnet_line ed]\<rparr>) \<and>
                exit_code (fst (main world)) = 1))"
proof (intro conjI impI)
  show "\<exists>e. fst (check_account world log b net) = Inl e"
    if "malformed (world (length log) (url_of net) (payload b))"
    using that by (simp add: check_account_raises_iff)
next
  have "main world =
      run_entries world \<lparr>sent = [], stdout = [title_line, rule_line]\<rparr>
        (before @ (name, a) # rest)"
    by (simp only: main_run assms(1))
  with assms(2) have m: "main world = run_entries world s ((name, a) # rest)"
    by (simp add: run_entries_append)
  {
    assume "malformed (world (length (sent s)) (url_of ''devnet'') (payload a))"
    then obtain e where "fst (check_account world (sent s) a ''devnet'') = Inl e"
      using check_account_raises_iff [of world "sent s" a "''devnet''"] by blast
    then have "main world =
                  (Some e,
                   s\<lparr>sent := sent s @ [(url_of ''devnet'', payload a)],
                     stdout := stdout s @ [header_line name a]\<rparr>)"
      by (simp add: m process_entry_unfold)
    then show "\<exists>e. main world =
                  (Some e,
                   s\<lparr>sent := sent s @ [(url_of ''devnet'', payload a)],
                     stdout := stdout s @ [header_line name a]\<rparr>) \<and>
                exit_code (fst (main world)) = 1"
      by (auto simp: exit_code_def)
  }
  {
    assume h: "fst (check_account world (sent s) a ''devnet'') = Inr (ed, rd) \<and>
          malformed (world (Suc (length (sent s))) (url_of ''mainnet-beta'') (payload a))"
    then obtain e where "fst (check_account world (sent s @ [(url_of ''devnet'', payload a)]) a
        ''mainnet-beta'') = Inl e"
      using check_account_raises_iff [of world "sent s @ [(url_of ''devnet'', payload a)]" a
          "''mainnet-beta''"] by auto
    with h have "main world =
                  (Some e,
                   s\<lparr>sent := sent s @ [(url_of ''devnet'', payload a),
                                       (url_of ''mainnet-beta'', payload a)],
                     stdout := stdout s @ [header_line name a, devnet_line ed]\<rparr>)"
      by (simp add: m process_entry_unfold)
    then show "\<exists>e. main world =
                  (Some e,
                   s\<lparr>sent := sent s @ [(url_of ''devnet'', payload a),
                                       (url_of ''mainnet-beta'', payload a)],
                     stdout := stdout s @ [header_line name a, devnet_line ed]\<rparr>) \<and>
                exit_code (fst (main world)) = 1"
      by (auto simp: exit_code_def)
  }
qed

theorem malformed_reply_aborts_run_witness:
  "malformed (Response None) \<and>
   malformed (Response (Some (JObject [(''jsonrpc'', JString ''2.0''), (''id'', JInt 1)]))) \<and>
   fst (check_account (garbled_at 3 (rpc_reply JNull)) (requests_of (''RAY'', four_k) @ [(url_of ''devnet'', payload four_k)])
          four_k ''mainnet-beta'') = Inl JSONDecodeError \<and>
   exit_code (fst (main (garbled_at 2 (rpc_reply JNull)))) = 1 \<and>
   sent (snd (main (garbled_at 2 (rpc_reply JNull)))) =
     requests_of (''USDC (current)'', four_k) @ [(url_of ''devnet'', payload four_k)] \<and>
   stdout (snd (main (garbled_at 2 (rpc_reply JNull)))) =
     [title_line, rule_line,
      header_line ''USDC (current)'' four_k, devnet_line False, mainnet_line False,
      header_line ''RAY'' four_k] \<and>
   exit_code (fst (main (garbled_at 3 (rpc_reply JNull)))) = 1 \<and>
   sent (snd (main (garbled_at 3 (rpc_reply JNull)))) =
     requests_of (''USDC (current)'', four_k) @ requests_of (''RAY'', four_k) \<and>
   stdout (snd (main (garbled_at 3 (rpc_reply JNull)))) =
     [title_line, rule_line,
      header_line ''USDC (current)'' four_k, devnet_line False, mainnet_line False,
      header_line ''RAY'' four_k, devnet_line False]"
proof -
  let ?s = "\<lparr>sent = requests_of (''USDC (current)'', four_k),
             stdout = [title_line, rule_line, header_line ''USDC (current)'' four_k,
                       devnet_line False, mainnet_line False]\<rparr>"
  let ?rest = "[(''SOL'', ''So11111111111111111111111111111111111111112''),
      (''DevNet USDC (known)'', ''Gh9ZwEmdLJ8DscKNTkTqPbNwLNNBjuSzaG9Vp2KGtKJr''),
      (''DevNet USDC (alt)'', ''4zMMC9srt5Ri5X14GAgXhaHii3GnPAEERYPJgZJDncDU'')]"
  have t: "tokens = [(''USDC (current)'', four_k)] @ (''RAY'', four_k) # ?rest"
    by (simp add: tokens_def four_k_def)
  have m1: "malformed (Response None)"
    and m2: "malformed (Response (Some (JObject [(''jsonrpc'', JString ''2.0''), (''id'', JInt 1)])))"
    by (simp_all add: malformed_def)
  have ro: "\<And>t. report_owner False (rpc_result JNull) t = (None, t)"
    by (simp add: report_owner_def)
  have b: "run_entries (garbled_at k (rpc_reply JNull))
      \<lparr>sent = [], stdout = [title_line, rule_line]\<rparr>
      [(''USDC (current)'', four_k)] = (None, ?s)" if "2 \<le> k" for k
    using that
    by (simp add: process_entry_unfold check_account_garbled read_body_rpc_reply ro
        requests_of_def)
  from b [of 2] have b2: "run_entries (garbled_at 2 (rpc_reply JNull))
      \<lparr>sent = [], stdout = [title_line, rule_line]\<rparr> [(''USDC (current)'', four_k)] = (None, ?s)"
    by simp
  from b [of 3] have b3: "run_entries (garbled_at 3 (rpc_reply JNull))
      \<lparr>sent = [], stdout = [title_line, rule_line]\<rparr> [(''USDC (current)'', four_k)] = (None, ?s)"
    by simp
  have g2: "malformed (garbled_at 2 (rpc_reply JNull) (length (sent ?s)) (url_of ''devnet'')
      (payload four_k))"
    by (simp add: garbled_at_def requests_of_def malformed_def)
  have d3: "fst (check_account (garbled_at 3 (rpc_reply JNull)) (sent ?s) four_k ''devnet'') =
      Inr (False, rpc_result JNull)"
    by (simp add: check_account_garbled read_body_rpc_reply requests_of_def)
  have g3: "malformed (garbled_at 3 (rpc_reply JNull) (Suc (length (sent ?s)))
      (url_of ''mainnet-beta'') (payload four_k))"
    by (simp add: garbled_at_def requests_of_def malformed_def)
  note at2 = malformed_reply_aborts_run [of "[(''USDC (current)'', four_k)]" "''RAY''" four_k ?rest
      "garbled_at 2 (rpc_reply JNull)" ?s, OF t b2]
  note at3 = malformed_reply_aborts_run [of "[(''USDC (current)'', four_k)]" "''RAY''" four_k ?rest
      "garbled_at 3 (rpc_reply JNull)" ?s
      "requests_of (''RAY'', four_k) @ [(url_of ''devnet'', payload four_k)]" "''mainnet-beta''"
      four_k False "rpc_result JNull", OF t b3]
  from at2 [THEN conjunct2, THEN conjunct1, THEN mp, OF g2] obtain e2 where
    r2: "main (garbled_at 2 (rpc_reply JNull)) =
       (Some e2,
        ?s\<lparr>sent := sent ?s @ [(url_of ''devnet'', payload four_k)],
           stdout := stdout ?s @ [header_line ''RAY'' four_k]\<rparr>)"
    and x2: "exit_code (fst (main (garbled_at 2 (rpc_reply JNull)))) = 1"
    by blast
  from at3 [THEN conjunct2, THEN conjunct2, THEN mp, OF conjI [OF d3 g3]] obtain e3 where
    r3: "main (garbled_at 3 (rpc_reply JNull)) =
       (Some e3,
        ?s\<lparr>sent := sent ?s @ [(url_of ''devnet'', payload four_k),
                               (url_of ''mainnet-beta'', payload four_k)],
           stdout := stdout ?s @ [header_line ''RAY'' four_k, devnet_line False]\<rparr>)"
    and x3: "exit_code (fst (main (garbled_at 3 (rpc_reply JNull)))) = 1"
    by blast
  have "malformed (garbled_at 3 (rpc_reply JNull)
      (length (requests_of (''RAY'', four_k) @ [(url_of ''devnet'', payload four_k)]))
      (url_of ''mainnet-beta'') (payload four_k))"
    by (simp add: garbled_at_def requests_of_def malformed_def)
  with at3 [THEN conjunct1] obtain e where
    "fst (check_account (garbled_at 3 (rpc_reply JNull))
       (requests_of (''RAY'', four_k) @ [(url_of ''devnet'', payload four_k)]) four_k ''mainnet-beta'') =
     Inl e"
    by blast
  then have c: "fst (check_account (garbled_at 3 (rpc_reply JNull))
       (requests_of (''RAY'', four_k) @ [(url_of ''devnet'', payload four_k)]) four_k ''mainnet-beta'') =
     Inl JSONDecodeError"
    by (simp add: check_account_garbled requests_of_def)
  from m1 m2 c x2 x3 r2 r3 show ?thesis
    by (simp add: requests_of_def)
qed

text \<open>
  C9. When every request of the run gets a reply of the expected shape (the call
  completes, and the body has an \<^verbatim>\<open>error\<close> key or a \<^verbatim>\<open>result.value\<close> that is null or an
  account whose owner, if it has one, is a str the console can encode), \<open>main\<close> returns and
  the exit status is 0, whatever the replies say about the accounts. All five entries of
  the table are processed: the requests sent are the DevNet and the Mainnet request of
  each entry in table order, and the output is the two title lines followed by one block
  per entry that starts with its header line, a DevNet line and a Mainnet line.
\<close>

theorem expected_replies_exit_zero:
  assumes "\<forall>i < length tokens.
      expected_shape (world (2 * i) (url_of ''devnet'') (payload (snd (tokens ! i)))) \<and>
      expected_shape (world (2 * i + 1) (url_of ''mainnet-beta'') (payload (snd (tokens ! i))))"
  shows "exit_code (fst (main world)) = 0 \<and>
         length tokens = 5 \<and>
         sent (snd (main world)) = concat (map requests_of tokens) \<and>
         (\<exists>blocks. length blocks = 5 \<and>
            stdout (snd (main world)) = title_line # rule_line # concat blocks \<and>
            (\<forall>i < 5. \<exists>ed em owner_lines.
               blocks ! i =
                 header_line (fst (tokens ! i)) (snd (tokens ! i)) #
                   devnet_line ed # mainnet_line em # owner_lines))"
proof -
  let ?s = "\<lparr>sent = [], stdout = [title_line, rule_line]\<rparr>"
  have s: "sent ?s = []" "stdout ?s = [title_line, rule_line]"
    by simp_all
  have len: "length tokens = 5" by (simp add: tokens_def)
  from assms have "\<forall>i < length tokens.
      expected_shape (world (length (sent ?s) + 2 * i) (url_of ''devnet'') (payload (snd (tokens ! i)))) \<and>
      expected_shape (world (length (sent ?s) + 2 * i + 1) (url_of ''mainnet-beta'')
        (payload (snd (tokens ! i))))"
    by (simp add: s)
  from run_entries_expected [where world = world and s = "?s", OF this] show ?thesis
    unfolding main_run [symmetric] by (simp add: len exit_code_def)
qed

theorem expected_replies_exit_zero_witness:
  "expected_shape (Response (Some (rpc_reply (account_info (JString token_program))))) \<and>
   expected_shape (Response (Some (rpc_reply JNull))) \<and>
   expected_shape (Response (Some error_reply)) \<and>
   \<not> expected_shape (Response (Some (rpc_reply (account_info (JString lone_surrogate))))) \<and>
   \<not> expected_shape (Response (Some (rpc_reply (JInt 1)))) \<and>
   exit_code (fst (main (by_url (Response (Some (rpc_reply (account_info (JString token_program)))))
                          (Response (Some error_reply))))) = 0 \<and>
   length (sent (snd (main (by_url (Response (Some (rpc_reply (account_info (JString token_program)))))
                             (Response (Some error_reply)))))) = 10"
proof -
  let ?w = "by_url (Response (Some (rpc_reply (account_info (JString token_program)))))
              (Response (Some error_reply))"
  have e: "expected_shape (Response (Some (rpc_reply (account_info (JString token_program)))))"
    "expected_shape (Response (Some (rpc_reply JNull)))"
    "expected_shape (Response (Some error_reply))"
    by (simp_all add: expected_shape_def rpc_reply_def rpc_result_def account_info_def
        error_reply_def token_program_def)
  then have "\<forall>i < length tokens.
      expected_shape (?w (2 * i) (url_of ''devnet'') (payload (snd (tokens ! i)))) \<and>
      expected_shape (?w (2 * i + 1) (url_of ''mainnet-beta'') (payload (snd (tokens ! i))))"
    by (simp add: by_url_def url_of_def)
  moreover have "\<not> expected_shape (Response (Some (rpc_reply (account_info (JString lone_surrogate)))))"
    "\<not> expected_shape (Response (Some (rpc_reply (JInt 1))))"
    by (simp_all add: expected_shape_def rpc_reply_def rpc_result_def account_info_def
        lone_surrogate_def)
  ultimately have sent: "exit_code (fst (main ?w)) = 0 \<and>
      sent (snd (main ?w)) = concat (map requests_of tokens)"
    and no: "\<not> expected_shape (Response (Some (rpc_reply (account_info (JString lone_surrogate)))))"
      "\<not> expected_shape (Response (Some (rpc_reply (JInt 1))))"
    using expected_replies_exit_zero [of ?w] by blast+
  from sent no e show ?thesis
    by (simp add: tokens_def requests_of_def)
qed

text \<open>
  C10, as amended. Whenever \<open>check_account\<close> returns the flag \<open>True\<close>, its second component
  is the \<^verbatim>\<open>result\<close> member of the reply and the \<^verbatim>\<open>value\<close> member of that is there and not
  null, so \<^verbatim>\<open>result_devnet["value"]\<close> in the owner report does not raise. The owner lookup
  on that value raises \<^verbatim>\<open>TypeError\<close> exactly when the value is \<^verbatim>\<open>true\<close>, a number other than
  zero, a list that has the string \<^verbatim>\<open>owner\<close> as an element, or a string that contains
  \<^verbatim>\<open>owner\<close>, and it never raises \<^verbatim>\<open>KeyError\<close>. So it does not raise when the value is a JSON
  object. The one other exception of the owner report is the \<^verbatim>\<open>UnicodeEncodeError\<close> of its
  \<^verbatim>\<open>print\<close>.
\<close>

theorem exists_flag_gives_value:
  assumes "fst (check_account world log a net) = Inr (True, r)"
  shows "\<exists>data v. world (length log) (url_of net) (payload a) = Response (Some data) \<and>
           field_of data ''result'' = Some r \<and> field_of r ''value'' = Some v \<and> v \<noteq> JNull \<and>
           subscript r ''value'' = Inr v \<and>
           (fst (report_owner True r s) = Some TypeError) =
             (case v of
                JObject acct \<Rightarrow> False
              | JNull \<Rightarrow> False
              | JArray xs \<Rightarrow> JString ''owner'' \<in> set xs
              | JString t \<Rightarrow> str_contains ''owner'' t
              | other \<Rightarrow> truthy other) \<and>
           (\<forall>k. fst (report_owner True r s) \<noteq> Some (KeyError k)) \<and>
           (fst (report_owner True r s) = None \<or> fst (report_owner True r s) = Some TypeError \<or>
            fst (report_owner True r s) = Some UnicodeEncodeError)"
proof -
  from assms obtain data where w: "world (length log) (url_of net) (payload a) = Response (Some data)"
    and rb: "read_body data = Inr (True, r)"
    by (auto simp: check_account_Inr)
  from rb obtain v where res: "field_of data ''result'' = Some r"
    and v: "field_of r ''value'' = Some v" and nn: "v \<noteq> JNull"
    by (auto simp: read_body_Inr)
  from v have sub: "subscript r ''value'' = Inr v"
    by (simp add: subscript_Inr)
  note st = report_owner_status [OF sub, of s]
  have t: "(fst (report_owner True r s) = Some TypeError) =
             (case v of
                JObject acct \<Rightarrow> False
              | JNull \<Rightarrow> False
              | JArray xs \<Rightarrow> JString ''owner'' \<in> set xs
              | JString t \<Rightarrow> str_contains ''owner'' t
              | other \<Rightarrow> truthy other)"
    unfolding st by (cases v) (simp_all split: option.splits)
  have k: "\<forall>k. fst (report_owner True r s) \<noteq> Some (KeyError k)"
    unfolding st by (cases v) (simp_all split: option.splits)
  have o: "fst (report_owner True r s) = None \<or> fst (report_owner True r s) = Some TypeError \<or>
      fst (report_owner True r s) = Some UnicodeEncodeError"
    unfolding st by (cases v) (simp_all split: option.splits)
  from w res v nn sub t k o show ?thesis by blast
qed

theorem exists_flag_gives_value_witness:
  "fst (check_account (always (rpc_reply (account_info (JString token_program)))) [] sol
          ''devnet'') =
     Inr (True, rpc_result (account_info (JString token_program))) \<and>
   subscript (rpc_result (account_info (JString token_program))) ''value'' =
     Inr (account_info (JString token_program)) \<and>
   fst (report_owner True (rpc_result (account_info (JString token_program))) initial) \<noteq>
     Some TypeError \<and>
   fst (report_owner True (rpc_result (account_info (JString token_program))) initial) \<noteq>
     Some (KeyError ''owner'')"
proof -
  let ?acct = "account_info (JString token_program)"
  have c: "fst (check_account (always (rpc_reply ?acct)) [] sol ''devnet'') =
      Inr (True, rpc_result ?acct)"
    by (simp add: check_account_always read_body_rpc_reply account_info_def)
  have f: "field_of (rpc_result ?acct) ''value'' = Some ?acct"
    by (simp add: rpc_result_def)
  from exists_flag_gives_value [OF c, of initial] obtain v where
    v: "field_of (rpc_result ?acct) ''value'' = Some v"
    and s: "subscript (rpc_result ?acct) ''value'' = Inr v"
    and r: "(fst (report_owner True (rpc_result ?acct) initial) = Some TypeError) =
             (case v of
                JObject acct \<Rightarrow> False
              | JNull \<Rightarrow> False
              | JArray xs \<Rightarrow> JString ''owner'' \<in> set xs
              | JString t \<Rightarrow> str_contains ''owner'' t
              | other \<Rightarrow> truthy other)"
    and k: "\<forall>k. fst (report_owner True (rpc_result ?acct) initial) \<noteq> Some (KeyError k)"
    by blast
  from v f have "v = ?acct" by simp
  with c s r k show ?thesis
    by (simp add: account_info_def)
qed

text \<open>
  A value that is not an object can make the owner lookup raise: here \<^verbatim>\<open>result.value\<close> is
  the number 1, the flag is \<open>True\<close>, and \<^verbatim>\<open>"owner" in account_data\<close> raises \<^verbatim>\<open>TypeError\<close>.
\<close>

theorem exists_flag_gives_value_counterexample:
  "fst (check_account (always (rpc_reply (JInt 1))) [] sol ''devnet'') =
     Inr (True, rpc_result (JInt 1)) \<and>
   subscript (rpc_result (JInt 1)) ''value'' = Inr (JInt 1) \<and>
   py_in ''owner'' (JInt 1) = Inl TypeError \<and>
   report_owner True (rpc_result (JInt 1)) initial = (Some TypeError, initial) \<and>
   process_entry (always (rpc_reply (JInt 1))) initial (''SOL'', sol) =
     (Some TypeError,
      \<lparr>sent = [(''https://api.devnet.solana.com'', payload sol),
               (''https://api.mainnet-beta.solana.com'', payload sol)],
       stdout = [header_line ''SOL'' sol, devnet_line True, mainnet_line True]\<rparr>)"
proof -
  have c: "\<And>log net. fst (check_account (always (rpc_reply (JInt 1))) log sol net) =
      Inr (True, rpc_result (JInt 1))"
    by (simp add: check_account_always read_body_rpc_reply)
  have s: "subscript (rpc_result (JInt 1)) ''value'' = Inr (JInt 1)"
    by (simp add: rpc_result_def)
  have r: "\<And>t. report_owner True (rpc_result (JInt 1)) t = (Some TypeError, t)"
    using s by (simp add: report_owner_def)
  have p: "process_entry (always (rpc_reply (JInt 1))) initial (''SOL'', sol) =
     (Some TypeError,
      \<lparr>sent = [(''https://api.devnet.solana.com'', payload sol),
               (''https://api.mainnet-beta.solana.com'', payload sol)],
       stdout = [header_line ''SOL'' sol, devnet_line True, mainnet_line True]\<rparr>)"
    by (simp add: process_entry_unfold c r initial_def url_of_def)
  from c [of "[]" "''devnet''"] s r [of initial] p show ?thesis
    by simp
qed

end
